theory Spec2Isabelle
  imports Main "HOL-Library.Multiset" "HOL-Library.Product_Lexorder" "HOL-Library.Log_Nat"
begin

section \<open>Go values\<close>

text \<open>
  A Go slice is either \<open>nil\<close> or a concrete (possibly empty) sequence.  The two are kept
  apart because the repositories return \<open>nil\<close> in some places and \<open>[]T{}\<close> in others.
  \<open>append\<close> on a \<open>nil\<close> slice yields a concrete one.
\<close>

datatype 'a slice = NilSlice | Slice "'a list"

fun elems :: "'a slice \<Rightarrow> 'a list" where
  "elems NilSlice = []"
| "elems (Slice xs) = xs"

definition len :: "'a slice \<Rightarrow> nat" where
  "len s = length (elems s)"

definition append_slice :: "'a slice \<Rightarrow> 'a \<Rightarrow> 'a slice" where
  "append_slice s x = Slice (elems s @ [x])"

text \<open>
  A \<open>float64\<close> is a finite binary fraction, an infinity or NaN.  Rows only copy such
  values; arithmetic on them is defined further down, where the timing report divides.
\<close>

datatype float64 = Fin rat | PosInf | NegInf | NaN

text \<open>
  Errors.  \<open>ErrDriver\<close> is whatever \<open>db.Query\<close> reports when a statement cannot be run,
  \<open>ErrNoRows\<close> is \<open>sql.ErrNoRows\<close>, \<open>ErrScan i\<close> is the error of \<open>Scan\<close> on column index
  \<open>i\<close> (a NULL read into a destination that is not a pointer), and \<open>Errorf msg e\<close> is
  \<open>fmt.Errorf(msg + ": %w", e)\<close> with the verbs of \<open>msg\<close> already formatted.
\<close>

datatype error = ErrDriver | ErrNoRows | ErrScan nat | Errorf string error

text \<open>The verb \<open>%d\<close> of \<open>fmt\<close>: decimal digits, with a minus sign for negatives.\<close>

definition digit_char :: "nat \<Rightarrow> char" where
  "digit_char d = ''0123456789'' ! d"

fun show_nat :: "nat \<Rightarrow> string" where
  "show_nat n = (if n < 10 then [digit_char n] else show_nat (n div 10) @ [digit_char (n mod 10)])"

declare show_nat.simps [simp del]

definition show_int :: "int \<Rightarrow> string" where
  "show_int i = (if i < 0 then CHR ''-'' # show_nat (nat (- i)) else show_nat (nat i))"

section \<open>models/models.go\<close>

text \<open>
  \<open>int64\<close> and \<open>int\<close> fields are \<open>int\<close>: the repositories never compute with them, they
  only copy and compare.  \<open>OrderDetail.OrderID\<close> and \<open>Department.DepartmentID\<close> carry a
  prefix because \<open>Order\<close> and \<open>Employee\<close> have fields of the same name.
\<close>

record Order =
  OrderID :: int
  CustomerID :: int
  OrderDate :: string
  TotalAmount :: float64

record OrderDetail =
  DetailID :: int
  DetailOrderID :: int
  ProductID :: int
  Quantity :: int
  UnitPrice :: float64

record OrderWithDetails =
  Order :: Order
  Details :: "OrderDetail slice"

record Employee =
  EmployeeID :: int
  FirstName :: string
  LastName :: string
  Email :: string
  DepartmentID :: int
  HireDate :: string
  Salary :: float64

record Department =
  DeptDepartmentID :: int
  DepartmentName :: string
  Location :: string

text \<open>\<open>Department *Department\<close>: the pointer is \<open>None\<close> when nil.\<close>

record EmployeeWithDepartment =
  Employee :: Employee
  Department :: "Department option"

section \<open>The database\<close>

text \<open>
  The four tables of \<open>scripts/load_test_data.sh\<close>, with the columns the repositories
  select.  A column that the DDL does not declare \<open>NOT NULL\<close> holds an option, \<open>None\<close>
  being SQL NULL.  A \<open>DATE\<close> is a number of days (Oracle date arithmetic counts days).
  Rows are listed in storage order.
\<close>

record orders_row =
  o_order_id :: int
  o_customer_id :: int
  o_order_date :: "rat option"
  o_total_amount :: "float64 option"

record order_details_row =
  od_detail_id :: int
  od_order_id :: int
  od_product_id :: int
  od_quantity :: int
  od_unit_price :: float64

record employees_row =
  e_employee_id :: int
  e_first_name :: string
  e_last_name :: string
  e_email :: string
  e_department_id :: "int option"
  e_hire_date :: "rat option"
  e_salary :: "float64 option"

record departments_row =
  d_department_id :: int
  d_department_name :: string
  d_location :: "string option"

record database =
  tbl_orders :: "orders_row list"
  tbl_order_details :: "order_details_row list"
  tbl_employees :: "employees_row list"
  tbl_departments :: "departments_row list"
  sysdate :: rat

text \<open>
  The statements the repositories send, with their bind values.  Both
  \<open>GetOrdersByDays\<close> send the same text, and so do both \<open>GetAllEmployees\<close>.
\<close>

datatype stmt =
    SelectOrdersByDays int
  | SelectDetailsByOrderID int
  | SelectOrdersJoinDetails int
  | SelectDetailsByOrderIDs "int list"
  | SelectAllEmployees
  | SelectDepartmentByID int
  | SelectEmployeesJoinDepartments
  | SelectDepartmentsByIDs "int list"

text \<open>
  \<open>*sql.DB\<close>: the tables, the statements sent so far, which statements the driver fails
  when they are sent (by their position in that sequence, counted from 0), for which
  statements the driver fails later, while their rows are read, and after how many rows
  (\<open>Some k\<close>: the call of \<open>rows.Next\<close> after \<open>k\<close> rows fails; \<open>None\<close>: none fails), and
  the text the driver hands over when a \<open>DATE\<close> is scanned into a Go string.
\<close>

record conn =
  tables :: database
  sent :: "stmt list"
  faulty :: "nat \<Rightarrow> bool"
  fetch_stops :: "nat \<Rightarrow> nat option"
  date_text :: "rat \<Rightarrow> string"

text \<open>\<open>db.Query\<close> and \<open>db.QueryRow\<close>: the statement goes out, and the driver may fail it.\<close>

definition Query :: "stmt \<Rightarrow> conn \<Rightarrow> error option \<times> conn" where
  "Query q c =
     (if faulty c (length (sent c)) then Some ErrDriver else None, c\<lparr>sent := sent c @ [q]\<rparr>)"

text \<open>
  What a loop \<open>for rows.Next() { ... }\<close> over the statement sent last gets to see of the
  rows that statement selects.  \<open>rows.Next\<close> returns false at the end of the rows and
  also when the driver fails to fetch the next one; no repository function asks
  \<open>rows.Err()\<close> afterwards, so for the loop a failed fetch is the end of the rows.
  An error of \<open>rows.Close()\<close> is left out: the repositories print it and go on.
\<close>

definition delivered_at :: "conn \<Rightarrow> nat \<Rightarrow> 'r list \<Rightarrow> 'r list" where
  "delivered_at c pos rs = (case fetch_stops c pos of None \<Rightarrow> rs | Some k \<Rightarrow> take k rs)"

definition delivered :: "conn \<Rightarrow> 'r list \<Rightarrow> 'r list" where
  "delivered c rs = delivered_at c (length (sent c) - 1) rs"

subsection \<open>What the statements select\<close>

text \<open>\<open>WHERE order_date >= SYSDATE - :1\<close>; a NULL date satisfies no comparison.\<close>

definition in_window :: "database \<Rightarrow> int \<Rightarrow> orders_row \<Rightarrow> bool" where
  "in_window db days r =
     (case o_order_date r of None \<Rightarrow> False | Some d \<Rightarrow> sysdate db - of_int days \<le> d)"

text \<open>\<open>SELECT ... FROM orders WHERE order_date >= SYSDATE - :1 ORDER BY order_id\<close>\<close>

definition rows_orders_by_days :: "database \<Rightarrow> int \<Rightarrow> orders_row list" where
  "rows_orders_by_days db days = sort_key o_order_id (filter (in_window db days) (tbl_orders db))"

text \<open>\<open>SELECT ... FROM order_details WHERE order_id = :1 ORDER BY detail_id\<close>\<close>

definition rows_details_by_order_id :: "database \<Rightarrow> int \<Rightarrow> order_details_row list" where
  "rows_details_by_order_id db oid =
     sort_key od_detail_id (filter (\<lambda>d. od_order_id d = oid) (tbl_order_details db))"

text \<open>
  \<open>SELECT ... FROM order_details WHERE order_id IN (:1, ..., :n)
  ORDER BY order_id, detail_id\<close>
\<close>

definition rows_details_by_order_ids :: "database \<Rightarrow> int list \<Rightarrow> order_details_row list" where
  "rows_details_by_order_ids db ids =
     sort_key (\<lambda>d. (od_order_id d, od_detail_id d))
       (filter (\<lambda>d. od_order_id d \<in> set ids) (tbl_order_details db))"

text \<open>
  \<open>FROM orders o LEFT JOIN order_details od ON o.order_id = od.order_id\<close>: every order
  with each of its details, or once with NULL detail columns when it has none.  The
  detail columns are all \<open>NOT NULL\<close> in the table, so in a joined row they are NULL
  together or not at all.
\<close>

definition left_join_details ::
  "database \<Rightarrow> orders_row \<Rightarrow> (orders_row \<times> order_details_row option) list" where
  "left_join_details db r =
     (case filter (\<lambda>d. o_order_id r = od_order_id d) (tbl_order_details db) of
        [] \<Rightarrow> [(r, None)]
      | ds \<Rightarrow> map (\<lambda>d. (r, Some d)) ds)"

text \<open>
  \<open>ORDER BY o.order_id, od.detail_id\<close>, ascending; Oracle puts NULL last in ascending
  order, so a NULL detail id sorts after every number.
\<close>

definition join_key :: "orders_row \<times> order_details_row option \<Rightarrow> int \<times> bool \<times> int" where
  "join_key r =
     (o_order_id (fst r),
      case snd r of None \<Rightarrow> (True, 0) | Some d \<Rightarrow> (False, od_detail_id d))"

definition rows_orders_join ::
  "database \<Rightarrow> int \<Rightarrow> (orders_row \<times> order_details_row option) list" where
  "rows_orders_join db days =
     sort_key join_key
       (concat (map (left_join_details db) (filter (in_window db days) (tbl_orders db))))"

subsection \<open>Scanning rows\<close>

text \<open>
  \<open>rows.Scan\<close> into a destination that is not a pointer fails on NULL; the error names
  the column index.
\<close>

definition scan_col :: "nat \<Rightarrow> 'a option \<Rightarrow> error + 'a" where
  "scan_col i v = (case v of None \<Rightarrow> Inl (ErrScan i) | Some x \<Rightarrow> Inr x)"

text \<open>The four columns of an order, scanned into \<open>Order\<close> fields in that order.\<close>

definition scan_Order :: "conn \<Rightarrow> orders_row \<Rightarrow> error + Order" where
  "scan_Order c r =
     (case scan_col 2 (o_order_date r) of
        Inl e \<Rightarrow> Inl e
      | Inr d \<Rightarrow>
         (case scan_col 3 (o_total_amount r) of
            Inl e \<Rightarrow> Inl e
          | Inr t \<Rightarrow>
             Inr \<lparr>OrderID = o_order_id r, CustomerID = o_customer_id r,
                  OrderDate = date_text c d, TotalAmount = t\<rparr>))"

text \<open>The five columns of a detail are all \<open>NOT NULL\<close>: scanning them does not fail.\<close>

definition OrderDetail_of_row :: "order_details_row \<Rightarrow> OrderDetail" where
  "OrderDetail_of_row r =
     \<lparr>DetailID = od_detail_id r, DetailOrderID = od_order_id r,
      ProductID = od_product_id r, Quantity = od_quantity r,
      UnitPrice = od_unit_price r\<rparr>"

definition scan_OrderDetail :: "order_details_row \<Rightarrow> error + OrderDetail" where
  "scan_OrderDetail r = Inr (OrderDetail_of_row r)"

text \<open>
  The loop \<open>for rows.Next() { Scan; if err != nil { return }; xs = append(xs, x) }\<close>
  over the rows it gets to see: the first scan error ends it, and \<open>xs\<close> stays \<open>nil\<close>
  when there is no row.
\<close>

fun fetch_all :: "('r \<Rightarrow> error + 'a) \<Rightarrow> 'r list \<Rightarrow> 'a slice \<Rightarrow> error + 'a slice" where
  "fetch_all scan [] acc = Inr acc"
| "fetch_all scan (r # rs) acc =
     (case scan r of
        Inl e \<Rightarrow> Inl e
      | Inr x \<Rightarrow> fetch_all scan rs (append_slice acc x))"

section \<open>ProblemOrderRepository\<close>

text \<open>
  A Go function returning \<open>(value, error)\<close> is a function to a triple: the value, the
  error (\<open>None\<close> for nil) and the connection afterwards.
\<close>

definition Problem_GetOrdersByDays ::
  "int \<Rightarrow> conn \<Rightarrow> Order slice \<times> error option \<times> conn" where
  "Problem_GetOrdersByDays days c =
     (case Query (SelectOrdersByDays days) c of
        (Some err, c') \<Rightarrow> (NilSlice, Some (Errorf ''failed to execute orders query'' err), c')
      | (None, c') \<Rightarrow>
         (case fetch_all (scan_Order c')
                 (delivered c' (rows_orders_by_days (tables c') days)) NilSlice of
            Inl err \<Rightarrow> (NilSlice, Some (Errorf ''failed to scan order row'' err), c')
          | Inr orders \<Rightarrow> (orders, None, c')))"

definition GetDetailsByOrderID ::
  "int \<Rightarrow> conn \<Rightarrow> OrderDetail slice \<times> error option \<times> conn" where
  "GetDetailsByOrderID orderID c =
     (case Query (SelectDetailsByOrderID orderID) c of
        (Some err, c') \<Rightarrow>
          (NilSlice, Some (Errorf ''failed to execute order details query'' err), c')
      | (None, c') \<Rightarrow>
         (case fetch_all scan_OrderDetail
                 (delivered c' (rows_details_by_order_id (tables c') orderID)) NilSlice of
            Inl err \<Rightarrow> (NilSlice, Some (Errorf ''failed to scan order detail row'' err), c')
          | Inr details \<Rightarrow> (details, None, c')))"

text \<open>The loop of \<open>GetOrdersWithDetails\<close> over the orders, one statement each.\<close>

fun details_loop ::
  "Order list \<Rightarrow> OrderWithDetails slice \<Rightarrow> conn \<Rightarrow>
     OrderWithDetails slice \<times> error option \<times> conn" where
  "details_loop [] result c = (result, None, c)"
| "details_loop (order # rest) result c =
     (case GetDetailsByOrderID (OrderID order) c of
        (details, Some err, c') \<Rightarrow>
          (NilSlice,
           Some (Errorf (''failed to get details for order '' @ show_int (OrderID order)) err),
           c')
      | (details, None, c') \<Rightarrow>
          details_loop rest (append_slice result \<lparr>Order = order, Details = details\<rparr>) c')"

definition GetOrdersWithDetails ::
  "int \<Rightarrow> conn \<Rightarrow> OrderWithDetails slice \<times> error option \<times> conn" where
  "GetOrdersWithDetails days c =
     (case Problem_GetOrdersByDays days c of
        (orders, Some err, c') \<Rightarrow> (NilSlice, Some (Errorf ''failed to get orders'' err), c')
      | (orders, None, c') \<Rightarrow> details_loop (elems orders) NilSlice c')"

section \<open>Go maps\<close>

text \<open>
  A Go map is kept as a list of key-value pairs with distinct keys.  The position of a
  pair in that list means nothing to the program: \<open>for ... range m\<close> visits the keys in an
  order the runtime chooses, which the caller of the model supplies as a function from
  the keys present to the order of the visit.
\<close>

type_synonym ('k, 'v) gomap = "('k \<times> 'v) list"

fun map_store :: "'k \<Rightarrow> 'v \<Rightarrow> ('k, 'v) gomap \<Rightarrow> ('k, 'v) gomap" where
  "map_store k v [] = [(k, v)]"
| "map_store k v (p # m) = (if fst p = k then (k, v) # m else p # map_store k v m)"

definition map_keys :: "('k, 'v) gomap \<Rightarrow> 'k list" where
  "map_keys m = map fst m"

definition map_range :: "('k list \<Rightarrow> 'k list) \<Rightarrow> ('k, 'v) gomap \<Rightarrow> ('k \<times> 'v) list" where
  "map_range visit m =
     List.map_filter (\<lambda>k. map_option (Pair k) (map_of m k)) (visit (map_keys m))"

text \<open>What a runtime may do: visit every key present exactly once.\<close>

definition visits_each_once :: "('k list \<Rightarrow> 'k list) \<Rightarrow> bool" where
  "visits_each_once visit = (\<forall>ks. mset (visit ks) = mset ks)"

text \<open>Reading a map of slices: a missing key gives the zero value, the nil slice.\<close>

definition map_index :: "('k, 'a slice) gomap \<Rightarrow> 'k \<Rightarrow> 'a slice" where
  "map_index m k = (case map_of m k of None \<Rightarrow> NilSlice | Some s \<Rightarrow> s)"

section \<open>OptimizedOrderRepository\<close>

text \<open>
  One row of the join, scanned: the order columns into plain variables, the detail
  columns into pointers.  The detail, when its id is not nil, takes its \<open>OrderID\<close> from
  the order column.
\<close>

definition scan_join_row ::
  "conn \<Rightarrow> orders_row \<times> order_details_row option \<Rightarrow> error + (Order \<times> OrderDetail option)" where
  "scan_join_row c r =
     (case scan_Order c (fst r) of
        Inl e \<Rightarrow> Inl e
      | Inr order \<Rightarrow>
          Inr (order,
               map_option
                 (\<lambda>d. \<lparr>DetailID = od_detail_id d, DetailOrderID = OrderID order,
                       ProductID = od_product_id d, Quantity = od_quantity d,
                       UnitPrice = od_unit_price d\<rparr>)
                 (snd r)))"

text \<open>The body of the row loop of \<open>GetOrdersWithDetailsJoin\<close> after a successful scan.\<close>

definition join_step ::
  "Order \<times> OrderDetail option \<Rightarrow> (int, OrderWithDetails) gomap \<Rightarrow>
     (int, OrderWithDetails) gomap" where
  "join_step row orderMap =
     (let order = fst row;
          orderMap1 =
            (case map_of orderMap (OrderID order) of
               None \<Rightarrow> map_store (OrderID order) \<lparr>Order = order, Details = Slice []\<rparr> orderMap
             | Some _ \<Rightarrow> orderMap)
      in case snd row of
           None \<Rightarrow> orderMap1
         | Some detail \<Rightarrow>
             (case map_of orderMap1 (OrderID order) of
                None \<Rightarrow> orderMap1
              | Some entry \<Rightarrow>
                  map_store (OrderID order)
                    (entry\<lparr>Details := append_slice (Details entry) detail\<rparr>) orderMap1))"

fun join_loop ::
  "conn \<Rightarrow> (orders_row \<times> order_details_row option) list \<Rightarrow>
     (int, OrderWithDetails) gomap \<Rightarrow> error + (int, OrderWithDetails) gomap" where
  "join_loop c [] orderMap = Inr orderMap"
| "join_loop c (r # rs) orderMap =
     (case scan_join_row c r of
        Inl err \<Rightarrow> Inl err
      | Inr row \<Rightarrow> join_loop c rs (join_step row orderMap))"

definition GetOrdersWithDetailsJoin ::
  "(int list \<Rightarrow> int list) \<Rightarrow> int \<Rightarrow> conn \<Rightarrow>
     OrderWithDetails slice \<times> error option \<times> conn" where
  "GetOrdersWithDetailsJoin visit days c =
     (case Query (SelectOrdersJoinDetails days) c of
        (Some err, c') \<Rightarrow> (NilSlice, Some (Errorf ''failed to execute join query'' err), c')
      | (None, c') \<Rightarrow>
         (case join_loop c' (delivered c' (rows_orders_join (tables c') days)) [] of
            Inl err \<Rightarrow> (NilSlice, Some (Errorf ''failed to scan row'' err), c')
          | Inr orderMap \<Rightarrow> (Slice (map snd (map_range visit orderMap)), None, c')))"

definition Optimized_GetOrdersByDays ::
  "int \<Rightarrow> conn \<Rightarrow> Order slice \<times> error option \<times> conn" where
  "Optimized_GetOrdersByDays days c =
     (case Query (SelectOrdersByDays days) c of
        (Some err, c') \<Rightarrow> (NilSlice, Some (Errorf ''failed to execute orders query'' err), c')
      | (None, c') \<Rightarrow>
         (case fetch_all (scan_Order c')
                 (delivered c' (rows_orders_by_days (tables c') days)) NilSlice of
            Inl err \<Rightarrow> (NilSlice, Some (Errorf ''failed to scan order row'' err), c')
          | Inr orders \<Rightarrow> (orders, None, c')))"

text \<open>
  The placeholders \<open>:1, ..., :n\<close> and their arguments are the list of ids itself; an
  empty list sends nothing.
\<close>

definition GetDetailsByOrderIDs ::
  "int list \<Rightarrow> conn \<Rightarrow> OrderDetail slice \<times> error option \<times> conn" where
  "GetDetailsByOrderIDs orderIDs c =
     (if length orderIDs = 0 then (Slice [], None, c)
      else
        (case Query (SelectDetailsByOrderIDs orderIDs) c of
           (Some err, c') \<Rightarrow> (NilSlice, Some (Errorf ''failed to execute batch query'' err), c')
         | (None, c') \<Rightarrow>
            (case fetch_all scan_OrderDetail
                    (delivered c' (rows_details_by_order_ids (tables c') orderIDs)) NilSlice of
               Inl err \<Rightarrow> (NilSlice, Some (Errorf ''failed to scan detail row'' err), c')
             | Inr details \<Rightarrow> (details, None, c'))))"

text \<open>Step 4 of \<open>GetOrdersWithDetailsBatch\<close>: grouping in memory.\<close>

fun group_details ::
  "OrderDetail list \<Rightarrow> (int, OrderDetail slice) gomap \<Rightarrow> (int, OrderDetail slice) gomap" where
  "group_details [] detailsByOrderID = detailsByOrderID"
| "group_details (detail # rest) detailsByOrderID =
     group_details rest
       (map_store (DetailOrderID detail)
          (append_slice (map_index detailsByOrderID (DetailOrderID detail)) detail)
          detailsByOrderID)"

text \<open>Step 5: one aggregate per order, a nil group replaced by an empty slice.\<close>

definition assemble_order ::
  "(int, OrderDetail slice) gomap \<Rightarrow> Order \<Rightarrow> OrderWithDetails" where
  "assemble_order detailsByOrderID order =
     (let r = \<lparr>Order = order, Details = map_index detailsByOrderID (OrderID order)\<rparr>
      in if Details r = NilSlice then r\<lparr>Details := Slice []\<rparr> else r)"

definition GetOrdersWithDetailsBatch ::
  "int \<Rightarrow> conn \<Rightarrow> OrderWithDetails slice \<times> error option \<times> conn" where
  "GetOrdersWithDetailsBatch days c =
     (case Optimized_GetOrdersByDays days c of
        (orders, Some err, c') \<Rightarrow> (NilSlice, Some (Errorf ''failed to get orders'' err), c')
      | (orders, None, c') \<Rightarrow>
          if len orders = 0 then (Slice [], None, c')
          else
            (case GetDetailsByOrderIDs (map OrderID (elems orders)) c' of
               (allDetails, Some err, c'') \<Rightarrow>
                 (NilSlice, Some (Errorf ''failed to get details'' err), c'')
             | (allDetails, None, c'') \<Rightarrow>
                 (Slice (map (assemble_order (group_details (elems allDetails) []))
                           (elems orders)),
                  None, c'')))"

section \<open>Employees and departments\<close>

text \<open>\<open>SELECT ... FROM employees ORDER BY employee_id\<close>\<close>

definition rows_all_employees :: "database \<Rightarrow> employees_row list" where
  "rows_all_employees db = sort_key e_employee_id (tbl_employees db)"

text \<open>\<open>SELECT ... FROM departments WHERE department_id = :1\<close>\<close>

definition rows_department_by_id :: "database \<Rightarrow> int \<Rightarrow> departments_row list" where
  "rows_department_by_id db departmentID =
     filter (\<lambda>d. d_department_id d = departmentID) (tbl_departments db)"

text \<open>
  \<open>SELECT ... FROM departments WHERE department_id IN (:1, ..., :n)\<close>, which has no
  \<open>ORDER BY\<close>: the rows come in storage order.
\<close>

definition rows_departments_by_ids :: "database \<Rightarrow> int list \<Rightarrow> departments_row list" where
  "rows_departments_by_ids db ids =
     filter (\<lambda>d. d_department_id d \<in> set ids) (tbl_departments db)"

text \<open>
  \<open>FROM employees e LEFT JOIN departments d ON e.department_id = d.department_id
  ORDER BY e.employee_id\<close>, selecting the employee columns, \<open>d.department_name\<close> and
  \<open>d.location\<close>.  A NULL \<open>e.department_id\<close> equals nothing.
\<close>

definition left_join_departments ::
  "database \<Rightarrow> employees_row \<Rightarrow> (employees_row \<times> string option \<times> string option) list" where
  "left_join_departments db e =
     (case filter (\<lambda>d. e_department_id e = Some (d_department_id d)) (tbl_departments db) of
        [] \<Rightarrow> [(e, None, None)]
      | ds \<Rightarrow> map (\<lambda>d. (e, Some (d_department_name d), d_location d)) ds)"

definition rows_employees_join ::
  "database \<Rightarrow> (employees_row \<times> string option \<times> string option) list" where
  "rows_employees_join db =
     sort_key (\<lambda>r. e_employee_id (fst r))
       (concat (map (left_join_departments db) (tbl_employees db)))"

text \<open>The seven employee columns, scanned in order into \<open>Employee\<close> fields.\<close>

definition scan_Employee :: "conn \<Rightarrow> employees_row \<Rightarrow> error + Employee" where
  "scan_Employee c r =
     (case scan_col 4 (e_department_id r) of
        Inl e \<Rightarrow> Inl e
      | Inr dep \<Rightarrow>
         (case scan_col 5 (e_hire_date r) of
            Inl e \<Rightarrow> Inl e
          | Inr hired \<Rightarrow>
             (case scan_col 6 (e_salary r) of
                Inl e \<Rightarrow> Inl e
              | Inr sal \<Rightarrow>
                 Inr \<lparr>EmployeeID = e_employee_id r, FirstName = e_first_name r,
                      LastName = e_last_name r, Email = e_email r, DepartmentID = dep,
                      HireDate = date_text c hired, Salary = sal\<rparr>)))"

definition scan_Department :: "departments_row \<Rightarrow> error + Department" where
  "scan_Department r =
     (case scan_col 2 (d_location r) of
        Inl e \<Rightarrow> Inl e
      | Inr loc \<Rightarrow>
          Inr \<lparr>DeptDepartmentID = d_department_id r,
               DepartmentName = d_department_name r, Location = loc\<rparr>)"

subsection \<open>ProblemEmployeeRepository\<close>

definition Problem_GetAllEmployees ::
  "conn \<Rightarrow> Employee slice \<times> error option \<times> conn" where
  "Problem_GetAllEmployees c =
     (case Query SelectAllEmployees c of
        (Some err, c') \<Rightarrow>
          (NilSlice, Some (Errorf ''failed to execute employees query'' err), c')
      | (None, c') \<Rightarrow>
         (case fetch_all (scan_Employee c')
                 (delivered c' (rows_all_employees (tables c'))) NilSlice of
            Inl err \<Rightarrow> (NilSlice, Some (Errorf ''failed to scan employee row'' err), c')
          | Inr employees \<Rightarrow> (employees, None, c')))"

text \<open>
  \<open>db.QueryRow(query, departmentID).Scan(...)\<close>: the driver's error when the statement
  cannot be sent or its first row cannot be fetched (\<open>Row.Scan\<close> does ask \<open>rows.Err()\<close>),
  \<open>sql.ErrNoRows\<close> when nothing matches, or the scan of the first row.
\<close>

definition QueryRow_Scan_Department :: "int \<Rightarrow> conn \<Rightarrow> (error + Department) \<times> conn" where
  "QueryRow_Scan_Department departmentID c =
     (case Query (SelectDepartmentByID departmentID) c of
        (Some err, c') \<Rightarrow> (Inl err, c')
      | (None, c') \<Rightarrow>
         if fetch_stops c' (length (sent c') - 1) = Some 0 then (Inl ErrDriver, c')
         else
           (case rows_department_by_id (tables c') departmentID of
              [] \<Rightarrow> (Inl ErrNoRows, c')
            | r # _ \<Rightarrow> (scan_Department r, c')))"

definition GetDepartmentByID ::
  "int \<Rightarrow> conn \<Rightarrow> Department option \<times> error option \<times> conn" where
  "GetDepartmentByID departmentID c =
     (case QueryRow_Scan_Department departmentID c of
        (Inl err, c') \<Rightarrow>
          if err = ErrNoRows then (None, None, c')
          else (None, Some (Errorf ''failed to query department'' err), c')
      | (Inr dept, c') \<Rightarrow> (Some dept, None, c'))"

fun departments_loop ::
  "Employee list \<Rightarrow> EmployeeWithDepartment slice \<Rightarrow> conn \<Rightarrow>
     EmployeeWithDepartment slice \<times> error option \<times> conn" where
  "departments_loop [] result c = (result, None, c)"
| "departments_loop (employee # rest) result c =
     (case GetDepartmentByID (DepartmentID employee) c of
        (department, Some err, c') \<Rightarrow>
          (NilSlice,
           Some (Errorf (''failed to get department for employee ''
                           @ show_int (EmployeeID employee)) err),
           c')
      | (department, None, c') \<Rightarrow>
          departments_loop rest
            (append_slice result \<lparr>Employee = employee, Department = department\<rparr>) c')"

definition GetEmployeesWithDepartment ::
  "conn \<Rightarrow> EmployeeWithDepartment slice \<times> error option \<times> conn" where
  "GetEmployeesWithDepartment c =
     (case Problem_GetAllEmployees c of
        (employees, Some err, c') \<Rightarrow>
          (NilSlice, Some (Errorf ''failed to get employees'' err), c')
      | (employees, None, c') \<Rightarrow> departments_loop (elems employees) NilSlice c')"

subsection \<open>OptimizedEmployeeRepository\<close>

text \<open>
  One row of the employee join: the employee columns into the struct, the two
  department columns into pointers; a department is attached when neither is nil, its
  id copied from the employee.
\<close>

definition scan_employee_join_row ::
  "conn \<Rightarrow> employees_row \<times> string option \<times> string option \<Rightarrow>
     error + EmployeeWithDepartment" where
  "scan_employee_join_row c r =
     (case scan_Employee c (fst r) of
        Inl e \<Rightarrow> Inl e
      | Inr emp \<Rightarrow>
         (case (fst (snd r), snd (snd r)) of
            (Some departmentName, Some location) \<Rightarrow>
              Inr \<lparr>Employee = emp,
                   Department =
                     Some \<lparr>DeptDepartmentID = DepartmentID emp,
                           DepartmentName = departmentName, Location = location\<rparr>\<rparr>
          | _ \<Rightarrow> Inr \<lparr>Employee = emp, Department = None\<rparr>))"

definition GetEmployeesWithDepartmentJoin ::
  "conn \<Rightarrow> EmployeeWithDepartment slice \<times> error option \<times> conn" where
  "GetEmployeesWithDepartmentJoin c =
     (case Query SelectEmployeesJoinDepartments c of
        (Some err, c') \<Rightarrow>
          (NilSlice, Some (Errorf ''failed to execute employee join query'' err), c')
      | (None, c') \<Rightarrow>
         (case fetch_all (scan_employee_join_row c')
                 (delivered c' (rows_employees_join (tables c'))) NilSlice of
            Inl err \<Rightarrow> (NilSlice, Some (Errorf ''failed to scan employee row'' err), c')
          | Inr result \<Rightarrow> (result, None, c')))"

definition Optimized_GetAllEmployees ::
  "conn \<Rightarrow> Employee slice \<times> error option \<times> conn" where
  "Optimized_GetAllEmployees c =
     (case Query SelectAllEmployees c of
        (Some err, c') \<Rightarrow>
          (NilSlice, Some (Errorf ''failed to execute employee query'' err), c')
      | (None, c') \<Rightarrow>
         (case fetch_all (scan_Employee c')
                 (delivered c' (rows_all_employees (tables c'))) NilSlice of
            Inl err \<Rightarrow> (NilSlice, Some (Errorf ''failed to scan employee row'' err), c')
          | Inr employees \<Rightarrow> (employees, None, c')))"

definition GetDepartmentsByIDs ::
  "int list \<Rightarrow> conn \<Rightarrow> Department slice \<times> error option \<times> conn" where
  "GetDepartmentsByIDs departmentIDs c =
     (if length departmentIDs = 0 then (Slice [], None, c)
      else
        (case Query (SelectDepartmentsByIDs departmentIDs) c of
           (Some err, c') \<Rightarrow>
             (NilSlice, Some (Errorf ''failed to execute department batch query'' err), c')
         | (None, c') \<Rightarrow>
            (case fetch_all scan_Department
                    (delivered c' (rows_departments_by_ids (tables c') departmentIDs)) NilSlice of
               Inl err \<Rightarrow> (NilSlice, Some (Errorf ''failed to scan department row'' err), c')
             | Inr departments \<Rightarrow> (departments, None, c'))))"

text \<open>Step 2 of \<open>GetEmployeesWithDepartmentBatch\<close>: the set of department ids, as a map.\<close>

fun collect_department_ids :: "Employee list \<Rightarrow> (int, bool) gomap \<Rightarrow> (int, bool) gomap" where
  "collect_department_ids [] departmentIDSet = departmentIDSet"
| "collect_department_ids (emp # rest) departmentIDSet =
     collect_department_ids rest (map_store (DepartmentID emp) True departmentIDSet)"

text \<open>The ids appended to \<open>departmentIDs\<close> while ranging over that map.\<close>

definition department_id_list :: "(int list \<Rightarrow> int list) \<Rightarrow> Employee list \<Rightarrow> int list" where
  "department_id_list visit emps = map fst (map_range visit (collect_department_ids emps []))"

text \<open>Step 4: the departments by id.\<close>

fun index_departments ::
  "Department list \<Rightarrow> (int, Department) gomap \<Rightarrow> (int, Department) gomap" where
  "index_departments [] departmentMap = departmentMap"
| "index_departments (dept # rest) departmentMap =
     index_departments rest (map_store (DeptDepartmentID dept) dept departmentMap)"

text \<open>Step 5: one aggregate per employee, with the department when the map has it.\<close>

definition assemble_employee ::
  "(int, Department) gomap \<Rightarrow> Employee \<Rightarrow> EmployeeWithDepartment" where
  "assemble_employee departmentMap emp =
     \<lparr>Employee = emp, Department = map_of departmentMap (DepartmentID emp)\<rparr>"

definition GetEmployeesWithDepartmentBatch ::
  "(int list \<Rightarrow> int list) \<Rightarrow> conn \<Rightarrow>
     EmployeeWithDepartment slice \<times> error option \<times> conn" where
  "GetEmployeesWithDepartmentBatch visit c =
     (case Optimized_GetAllEmployees c of
        (employees, Some err, c') \<Rightarrow>
          (NilSlice, Some (Errorf ''failed to get employees'' err), c')
      | (employees, None, c') \<Rightarrow>
          if len employees = 0 then (Slice [], None, c')
          else
            (case GetDepartmentsByIDs (department_id_list visit (elems employees)) c' of
               (departments, Some err, c'') \<Rightarrow>
                 (NilSlice, Some (Errorf ''failed to get departments'' err), c'')
             | (departments, None, c'') \<Rightarrow>
                 (Slice (map (assemble_employee (index_departments (elems departments) []))
                           (elems employees)),
                  None, c'')))"

section \<open>float64 arithmetic\<close>









section \<open>The timing report (package service)\<close>






section \<open>Sample data\<close>

text \<open>
  A small database: orders 2 and 1 inside a window of 30 days (stored in that order) and
  order 3 outside it; two details for order 1 and none for order 2; three employees, one
  of them pointing at a department that does not exist; one department, with a location.
\<close>

definition demo_db :: database where
  "demo_db =
     \<lparr>tbl_orders =
        [\<lparr>o_order_id = 2, o_customer_id = 7, o_order_date = Some 9, o_total_amount = Some (Fin 5)\<rparr>,
         \<lparr>o_order_id = 1, o_customer_id = 8, o_order_date = Some 10, o_total_amount = Some (Fin 3)\<rparr>,
         \<lparr>o_order_id = 3, o_customer_id = 8, o_order_date = Some (-100), o_total_amount = Some (Fin 1)\<rparr>],
      tbl_order_details =
        [\<lparr>od_detail_id = 5, od_order_id = 1, od_product_id = 11, od_quantity = 1, od_unit_price = Fin 1\<rparr>,
         \<lparr>od_detail_id = 4, od_order_id = 1, od_product_id = 12, od_quantity = 2, od_unit_price = Fin 1\<rparr>],
      tbl_employees =
        [\<lparr>e_employee_id = 2, e_first_name = ''Hanako'', e_last_name = ''Sato'', e_email = ''h'',
          e_department_id = Some 9, e_hire_date = Some 1, e_salary = Some (Fin 1)\<rparr>,
         \<lparr>e_employee_id = 1, e_first_name = ''Taro'', e_last_name = ''Tanaka'', e_email = ''t'',
          e_department_id = Some 3, e_hire_date = Some 1, e_salary = Some (Fin 1)\<rparr>,
         \<lparr>e_employee_id = 3, e_first_name = ''Jiro'', e_last_name = ''Takahashi'', e_email = ''j'',
          e_department_id = Some 3, e_hire_date = Some 1, e_salary = Some (Fin 1)\<rparr>],
      tbl_departments =
        [\<lparr>d_department_id = 3, d_department_name = ''Sales'', d_location = Some ''Tokyo''\<rparr>],
      sysdate = 10\<rparr>"

definition demo_conn :: conn where
  "demo_conn = \<lparr>tables = demo_db, sent = [], faulty = (\<lambda>n. False), fetch_stops = (\<lambda>n. None),
      date_text = (\<lambda>d. ''date'')\<rparr>"

text \<open>The same database with the location of its department missing.\<close>

definition no_location_conn :: conn where
  "no_location_conn =
     demo_conn\<lparr>tables := demo_db\<lparr>tbl_departments :=
       [\<lparr>d_department_id = 3, d_department_name = ''Sales'', d_location = None\<rparr>]\<rparr>\<rparr>"

text \<open>The same database with one more employee, who has no department id.\<close>

definition no_department_conn :: conn where
  "no_department_conn =
     demo_conn\<lparr>tables := demo_db\<lparr>tbl_employees := tbl_employees demo_db @
       [\<lparr>e_employee_id = 4, e_first_name = ''Misaki'', e_last_name = ''Yamada'', e_email = ''m'',
         e_department_id = None, e_hire_date = Some 1, e_salary = Some (Fin 1)\<rparr>]\<rparr>\<rparr>"

text \<open>The same with no order and no employee at all.\<close>

definition empty_conn :: conn where
  "empty_conn =
     \<lparr>tables = \<lparr>tbl_orders = [], tbl_order_details = [], tbl_employees = [],
                 tbl_departments = [], sysdate = 10\<rparr>,
      sent = [], faulty = (\<lambda>n. False), fetch_stops = (\<lambda>n. None),
      date_text = (\<lambda>d. ''date'')\<rparr>"

section \<open>Reading a call's outcome\<close>

text \<open>
  The three parts of what a repository call returns, and the statements it sent: those
  the connection holds afterwards beyond the ones it held before.
\<close>

definition result_of :: "'a \<times> error option \<times> conn \<Rightarrow> 'a" where
  "result_of r = fst r"

definition error_of :: "'a \<times> error option \<times> conn \<Rightarrow> error option" where
  "error_of r = fst (snd r)"

definition conn_of :: "'a \<times> error option \<times> conn \<Rightarrow> conn" where
  "conn_of r = snd (snd r)"

definition issued :: "conn \<Rightarrow> 'a \<times> error option \<times> conn \<Rightarrow> stmt list" where
  "issued c r = drop (length (sent c)) (sent (conn_of r))"

section \<open>When a lookup of the naive strategy fails\<close>

text \<open>
  The error, if any, that \<open>GetDetailsByOrderID\<close> reports when its statement goes out as
  statement number \<open>pos\<close>: the driver's, when it fails to send the statement.  No detail
  column is NULL, so no scan fails; and a failure while the rows are fetched is not
  reported at all.
\<close>

definition details_lookup_error :: "conn \<Rightarrow> nat \<Rightarrow> error option" where
  "details_lookup_error c pos = (if faulty c pos then Some ErrDriver else None)"

text \<open>
  The same for one employee's department: the driver can fail to send the statement or
  to fetch its first row, and the scan fails when the department found has no location.
  Finding no department is not an error.
\<close>

definition department_lookup_error :: "conn \<Rightarrow> nat \<Rightarrow> int \<Rightarrow> error option" where
  "department_lookup_error c pos departmentID =
     (if faulty c pos then Some ErrDriver
      else if fetch_stops c pos = Some 0 then Some ErrDriver
      else case rows_department_by_id (tables c) departmentID of
             [] \<Rightarrow> None
           | r # _ \<Rightarrow> (case d_location r of None \<Rightarrow> Some (ErrScan 2) | Some _ \<Rightarrow> None))"

text \<open>A connection whose driver fails to send exactly the statement with the given number.\<close>

definition failing_at :: "nat \<Rightarrow> conn \<Rightarrow> conn" where
  "failing_at n c = c\<lparr>faulty := (\<lambda>i. i = n)\<rparr>"

text \<open>
  A connection whose driver sends every statement, and fails while it fetches the rows
  of the statement with the given number, after \<open>k\<close> of them.
\<close>

definition stopping_at :: "nat \<Rightarrow> nat \<Rightarrow> conn \<Rightarrow> conn" where
  "stopping_at n k c = c\<lparr>fetch_stops := (\<lambda>i. if i = n then Some k else None)\<rparr>"

section \<open>Runs that nothing else disturbs\<close>

text \<open>
  The driver fails no statement, neither when it is sent nor while its rows are fetched;
  every employee row has the three columns that are scanned into plain fields; every
  department row has a location.
\<close>

definition no_faults :: "conn \<Rightarrow> bool" where
  "no_faults c = (\<forall>n. \<not> faulty c n \<and> fetch_stops c n = None)"

definition employees_scannable :: "database \<Rightarrow> bool" where
  "employees_scannable db =
     list_all (\<lambda>e. e_department_id e \<noteq> None \<and> e_hire_date e \<noteq> None \<and> e_salary e \<noteq> None)
       (tbl_employees db)"

definition departments_scannable :: "database \<Rightarrow> bool" where
  "departments_scannable db = list_all (\<lambda>d. d_location d \<noteq> None) (tbl_departments db)"

section \<open>Sample timings\<close>



section \<open>Basic facts\<close>

lemmas outcome_defs = result_of_def error_of_def conn_of_def issued_def

lemmas sample_defs =
  demo_conn_def demo_db_def empty_conn_def no_location_conn_def no_department_conn_def

lemmas order_defs =
  GetOrdersWithDetails_def Problem_GetOrdersByDays_def Query_def rows_orders_by_days_def
  in_window_def scan_Order_def scan_col_def append_slice_def GetDetailsByOrderID_def
  rows_details_by_order_id_def scan_OrderDetail_def OrderDetail_of_row_def
  GetOrdersWithDetailsJoin_def rows_orders_join_def left_join_details_def join_key_def
  scan_join_row_def join_step_def map_range_def map_keys_def List.map_filter_simps
  GetOrdersWithDetailsBatch_def Optimized_GetOrdersByDays_def GetDetailsByOrderIDs_def
  rows_details_by_order_ids_def assemble_order_def map_index_def len_def
  delivered_def delivered_at_def

lemmas employee_defs =
  Query_def scan_col_def append_slice_def map_range_def map_keys_def List.map_filter_simps len_def
  rows_all_employees_def rows_department_by_id_def rows_departments_by_ids_def
  left_join_departments_def rows_employees_join_def scan_Employee_def scan_Department_def
  Problem_GetAllEmployees_def QueryRow_Scan_Department_def GetDepartmentByID_def
  GetEmployeesWithDepartment_def scan_employee_join_row_def GetEmployeesWithDepartmentJoin_def
  Optimized_GetAllEmployees_def GetDepartmentsByIDs_def department_id_list_def
  assemble_employee_def GetEmployeesWithDepartmentBatch_def delivered_def delivered_at_def

subsection \<open>The row loop\<close>

lemma delivered_after_Query [simp]:
  "delivered (c\<lparr>sent := sent c @ [q]\<rparr>) rs = delivered_at c (length (sent c)) rs"
  by (simp add: delivered_def delivered_at_def)

lemma delivered_at_Nil [simp]: "delivered_at c pos [] = []"
  by (simp add: delivered_at_def split: option.splits)

lemma delivered_at_frame [simp]: "delivered_at (c\<lparr>sent := s\<rparr>) pos rs = delivered_at c pos rs"
  by (simp add: delivered_at_def)

lemma delivered_at_all: "fetch_stops c pos = None \<Longrightarrow> delivered_at c pos rs = rs"
  by (simp add: delivered_at_def)

lemma set_delivered_at: "set (delivered_at c pos rs) \<subseteq> set rs"
  by (auto simp: delivered_at_def split: option.splits dest: in_set_takeD)

lemma fetch_all_Inr:
  "fetch_all scan rs acc = Inr s \<Longrightarrow>
     \<exists>xs. map scan rs = map Inr xs \<and> s = (if rs = [] then acc else Slice (elems acc @ xs))"
proof (induction rs arbitrary: acc)
  case Nil
  then show ?case by simp
next
  case (Cons r rs)
  then obtain x where x: "scan r = Inr x"
    and rest: "fetch_all scan rs (append_slice acc x) = Inr s"
    by (auto split: sum.splits)
  from Cons.IH [OF rest] obtain xs where
    xs: "map scan rs = map Inr xs"
        "s = (if rs = [] then append_slice acc x else Slice (elems (append_slice acc x) @ xs))"
    by blast
  have "map scan (r # rs) = map Inr (x # xs)" using x xs by simp
  moreover have "s = Slice (elems acc @ x # xs)"
    using xs by (auto simp: append_slice_def)
  ultimately show ?case by (metis list.distinct(1))
qed

lemma fetch_all_ok:
  "map scan rs = map Inr xs \<Longrightarrow>
     fetch_all scan rs acc = Inr (if rs = [] then acc else Slice (elems acc @ xs))"
proof (induction rs arbitrary: acc xs)
  case Nil
  then show ?case by simp
next
  case (Cons r rs)
  then obtain x xs' where xs: "xs = x # xs'" "scan r = Inr x" "map scan rs = map Inr xs'"
    by (cases xs) auto
  show ?case using Cons.IH [OF xs(3), of "append_slice acc x"] xs
    by (auto simp: append_slice_def)
qed

lemma fetch_all_length:
  assumes "fetch_all scan rs acc = Inr s"
  shows "len s = len acc + length rs"
proof -
  from fetch_all_Inr [OF assms] obtain xs where
    xs: "map scan rs = map Inr xs" "s = (if rs = [] then acc else Slice (elems acc @ xs))"
    by blast
  have "length xs = length rs" using xs(1) by (metis length_map)
  then show ?thesis using xs(2) by (simp add: len_def)
qed

lemma fetch_details:
  "fetch_all scan_OrderDetail rs NilSlice =
     Inr (if rs = [] then NilSlice else Slice (map OrderDetail_of_row rs))"
  using fetch_all_ok [of scan_OrderDetail rs "map OrderDetail_of_row rs" NilSlice]
  by (simp add: scan_OrderDetail_def)

subsection \<open>Statements sent by the order repositories\<close>

lemma GetDetailsByOrderID_eq:
  "GetDetailsByOrderID oid c =
     (if faulty c (length (sent c))
      then (NilSlice, Some (Errorf ''failed to execute order details query'' ErrDriver),
            c\<lparr>sent := sent c @ [SelectDetailsByOrderID oid]\<rparr>)
      else ((if delivered_at c (length (sent c)) (rows_details_by_order_id (tables c) oid) = []
             then NilSlice
             else Slice (map OrderDetail_of_row
                          (delivered_at c (length (sent c))
                             (rows_details_by_order_id (tables c) oid)))),
            None, c\<lparr>sent := sent c @ [SelectDetailsByOrderID oid]\<rparr>))"
  by (simp add: GetDetailsByOrderID_def Query_def fetch_details)

lemma details_loop_sent:
  "details_loop os acc c = (res, None, c') \<Longrightarrow>
     sent c' = sent c @ map (\<lambda>x. SelectDetailsByOrderID (OrderID x)) os"
proof (induction os arbitrary: acc c)
  case Nil
  then show ?case by simp
next
  case (Cons x os)
  then show ?case
    by (simp add: GetDetailsByOrderID_eq split: if_splits)
qed

lemma Problem_GetOrdersByDays_ok:
  assumes "Problem_GetOrdersByDays days c = (os, None, c')"
  shows "c' = c\<lparr>sent := sent c @ [SelectOrdersByDays days]\<rparr>"
    and "len os = length (delivered_at c (length (sent c)) (rows_orders_by_days (tables c) days))"
    and "\<not> faulty c (length (sent c))"
  using assms
  by (auto simp: Problem_GetOrdersByDays_def Query_def len_def
           split: if_splits sum.splits dest!: fetch_all_length)

lemma Optimized_GetOrdersByDays_ok:
  assumes "Optimized_GetOrdersByDays days c = (os, None, c')"
  shows "c' = c\<lparr>sent := sent c @ [SelectOrdersByDays days]\<rparr>"
    and "len os = length (delivered_at c (length (sent c)) (rows_orders_by_days (tables c) days))"
    and "\<not> faulty c (length (sent c))"
  using assms
  by (auto simp: Optimized_GetOrdersByDays_def Query_def len_def
           split: if_splits sum.splits dest!: fetch_all_length)

lemma naive_count:
  assumes "GetOrdersWithDetails days c = (res, None, c')"
  shows "length (sent c') =
           length (sent c) + 1 +
           length (delivered_at c (length (sent c)) (rows_orders_by_days (tables c) days))"
proof -
  from assms obtain os c1 where
    p: "Problem_GetOrdersByDays days c = (os, None, c1)" and
    l: "details_loop (elems os) NilSlice c1 = (res, None, c')"
    by (auto simp: GetOrdersWithDetails_def split: prod.splits option.splits)
  show ?thesis
    using Problem_GetOrdersByDays_ok [OF p] details_loop_sent [OF l]
    by (simp add: len_def)
qed

lemma join_count:
  assumes "GetOrdersWithDetailsJoin visit days c = (res, None, c')"
  shows "length (sent c') = length (sent c) + 1"
  using assms
  by (auto simp: GetOrdersWithDetailsJoin_def Query_def split: if_splits sum.splits)

lemma GetDetailsByOrderIDs_sent:
  assumes "GetDetailsByOrderIDs ids c = (ds, e, c')"
  shows "sent c' = (if ids = [] then sent c else sent c @ [SelectDetailsByOrderIDs ids])"
  using assms
  by (auto simp: GetDetailsByOrderIDs_def Query_def fetch_details split: if_splits)

lemma batch_count:
  assumes "GetOrdersWithDetailsBatch days c = (res, None, c')"
  shows "length (sent c') =
           length (sent c) +
           (if delivered_at c (length (sent c)) (rows_orders_by_days (tables c) days) = []
            then 1 else 2)"
proof -
  from assms obtain os c1 where
    p: "Optimized_GetOrdersByDays days c = (os, None, c1)"
    by (auto simp: GetOrdersWithDetailsBatch_def split: prod.splits option.splits)
  note ok = Optimized_GetOrdersByDays_ok [OF p]
  show ?thesis
  proof (cases "len os = 0")
    case True
    then show ?thesis using assms p ok by (auto simp: GetOrdersWithDetailsBatch_def)
  next
    case False
    then have ne: "map OrderID (elems os) \<noteq> []" by (simp add: len_def)
    from assms p False obtain ds where
      d: "GetDetailsByOrderIDs (map OrderID (elems os)) c1 = (ds, None, c')"
      by (auto simp: GetOrdersWithDetailsBatch_def split: prod.splits option.splits)
    show ?thesis using GetDetailsByOrderIDs_sent [OF d] ne ok False by (simp add: len_def)
  qed
qed

section \<open>Round trips\<close>

text \<open>
  C4.  A run that returns without error has sent: with the naive strategy, one statement
  plus one for every order the first statement delivers (all it selects, unless the
  fetch of its rows is cut short); with the join strategy, one statement; with the batch
  strategy, two statements when the first delivers some order and one when it delivers
  none.
\<close>

theorem round_trip_counts:
  "(error_of (GetOrdersWithDetails days c) = None \<longrightarrow>
      length (issued c (GetOrdersWithDetails days c)) =
        1 + length (delivered_at c (length (sent c)) (rows_orders_by_days (tables c) days))) \<and>
   (error_of (GetOrdersWithDetailsJoin visit days c) = None \<longrightarrow>
      length (issued c (GetOrdersWithDetailsJoin visit days c)) = 1) \<and>
   (error_of (GetOrdersWithDetailsBatch days c) = None \<longrightarrow>
      length (issued c (GetOrdersWithDetailsBatch days c)) =
        (if delivered_at c (length (sent c)) (rows_orders_by_days (tables c) days) = []
         then 1 else 2))"
proof (intro conjI impI)
  assume "error_of (GetOrdersWithDetails days c) = None"
  then obtain res c' where "GetOrdersWithDetails days c = (res, None, c')"
    by (cases "GetOrdersWithDetails days c") (simp add: error_of_def)
  then show "length (issued c (GetOrdersWithDetails days c)) =
               1 + length (delivered_at c (length (sent c)) (rows_orders_by_days (tables c) days))"
    using naive_count by (simp add: outcome_defs)
next
  assume "error_of (GetOrdersWithDetailsJoin visit days c) = None"
  then obtain res c' where "GetOrdersWithDetailsJoin visit days c = (res, None, c')"
    by (cases "GetOrdersWithDetailsJoin visit days c") (simp add: error_of_def)
  then show "length (issued c (GetOrdersWithDetailsJoin visit days c)) = 1"
    using join_count by (simp add: outcome_defs)
next
  assume "error_of (GetOrdersWithDetailsBatch days c) = None"
  then obtain res c' where "GetOrdersWithDetailsBatch days c = (res, None, c')"
    by (cases "GetOrdersWithDetailsBatch days c") (simp add: error_of_def)
  then show "length (issued c (GetOrdersWithDetailsBatch days c)) =
               (if delivered_at c (length (sent c)) (rows_orders_by_days (tables c) days) = []
                then 1 else 2)"
    using batch_count by (simp add: outcome_defs)
qed

theorem round_trip_counts_witness:
  "error_of (GetOrdersWithDetails 30 demo_conn) = None \<and>
   error_of (GetOrdersWithDetailsJoin rev 30 demo_conn) = None \<and>
   error_of (GetOrdersWithDetailsBatch 30 demo_conn) = None \<and>
   length (rows_orders_by_days (tables demo_conn) 30) = 2 \<and>
   length (issued demo_conn (GetOrdersWithDetails 30 demo_conn)) = 3 \<and>
   length (issued demo_conn (GetOrdersWithDetailsJoin rev 30 demo_conn)) = 1 \<and>
   length (issued demo_conn (GetOrdersWithDetailsBatch 30 demo_conn)) = 2"
proof -
  have ok: "error_of (GetOrdersWithDetails 30 demo_conn) = None"
    "error_of (GetOrdersWithDetailsJoin rev 30 demo_conn) = None"
    "error_of (GetOrdersWithDetailsBatch 30 demo_conn) = None"
    by (simp_all add: outcome_defs sample_defs order_defs)
  have rows: "length (rows_orders_by_days (tables demo_conn) 30) = 2"
    by (simp add: sample_defs rows_orders_by_days_def in_window_def)
  from rows have ne: "rows_orders_by_days (tables demo_conn) 30 \<noteq> []" by auto
  have all: "delivered_at demo_conn (length (sent demo_conn))
               (rows_orders_by_days (tables demo_conn) 30) =
             rows_orders_by_days (tables demo_conn) 30"
    by (rule delivered_at_all) (simp add: demo_conn_def)
  show ?thesis
    using round_trip_counts [of 30 demo_conn rev] ok rows ne unfolding all by simp
qed
section \<open>Failing lookups of the naive strategy\<close>

lemma lookup_error_frame [simp]:
  "details_lookup_error (c\<lparr>sent := s\<rparr>) pos = details_lookup_error c pos"
  "department_lookup_error (c\<lparr>sent := s\<rparr>) pos d = department_lookup_error c pos d"
  by (simp_all add: details_lookup_error_def department_lookup_error_def)

lemma details_loop_fails:
  assumes "k < length os"
    and "details_lookup_error c (length (sent c) + k) = Some e"
    and "\<forall>j<k. details_lookup_error c (length (sent c) + j) = None"
  shows "details_loop os acc c =
           (NilSlice,
            Some (Errorf (''failed to get details for order '' @ show_int (OrderID (os ! k)))
                    (Errorf ''failed to execute order details query'' e)),
            c\<lparr>sent := sent c @ map (\<lambda>x. SelectDetailsByOrderID (OrderID x)) (take (Suc k) os)\<rparr>)"
  using assms
proof (induction os arbitrary: acc c k)
  case Nil
  then show ?case by simp
next
  case (Cons x os)
  show ?case
  proof (cases k)
    case 0
    with Cons.prems show ?thesis
      by (simp add: GetDetailsByOrderID_eq details_lookup_error_def split: if_splits)
  next
    case (Suc k')
    let ?c = "c\<lparr>sent := sent c @ [SelectDetailsByOrderID (OrderID x)]\<rparr>"
    from Cons.prems(3) Suc have nf: "\<not> faulty c (length (sent c))"
      by (auto simp: details_lookup_error_def split: if_splits dest: spec [of _ 0])
    have 1: "k' < length os" using Cons.prems(1) Suc by simp
    have 2: "details_lookup_error ?c (length (sent ?c) + k') = Some e"
      using Cons.prems(2) Suc by simp
    have 3: "\<forall>j<k'. details_lookup_error ?c (length (sent ?c) + j) = None"
    proof (intro allI impI)
      fix j assume "j < k'"
      then have "Suc j < k" using Suc by simp
      with Cons.prems(3) have "details_lookup_error c (length (sent c) + Suc j) = None" by blast
      then show "details_lookup_error ?c (length (sent ?c) + j) = None"
        by simp
    qed
    show ?thesis
      using Cons.IH [OF 1 2 3] nf Suc
      by (simp add: GetDetailsByOrderID_eq)
  qed
qed

lemma fetch_departments_first:
  "QueryRow_Scan_Department departmentID c =
     ((if faulty c (length (sent c)) then Inl ErrDriver
       else if fetch_stops c (length (sent c)) = Some 0 then Inl ErrDriver
       else case rows_department_by_id (tables c) departmentID of
              [] \<Rightarrow> Inl ErrNoRows | r # _ \<Rightarrow> scan_Department r),
      c\<lparr>sent := sent c @ [SelectDepartmentByID departmentID]\<rparr>)"
  by (simp add: QueryRow_Scan_Department_def Query_def split: list.splits)

lemma GetDepartmentByID_error:
  "error_of (GetDepartmentByID departmentID c) =
     map_option (Errorf ''failed to query department'')
       (department_lookup_error c (length (sent c)) departmentID)"
  by (simp add: GetDepartmentByID_def fetch_departments_first department_lookup_error_def
      error_of_def scan_Department_def scan_col_def split: list.splits option.splits)

lemma GetDepartmentByID_conn:
  "conn_of (GetDepartmentByID departmentID c) =
     c\<lparr>sent := sent c @ [SelectDepartmentByID departmentID]\<rparr>"
  by (simp add: GetDepartmentByID_def fetch_departments_first conn_of_def
      split: list.splits sum.splits)

lemma departments_loop_fails:
  assumes "k < length emps"
    and "department_lookup_error c (length (sent c) + k) (DepartmentID (emps ! k)) = Some e"
    and "\<forall>j<k. department_lookup_error c (length (sent c) + j) (DepartmentID (emps ! j)) = None"
  shows "departments_loop emps acc c =
           (NilSlice,
            Some (Errorf (''failed to get department for employee ''
                           @ show_int (EmployeeID (emps ! k)))
                    (Errorf ''failed to query department'' e)),
            c\<lparr>sent := sent c @ map (\<lambda>x. SelectDepartmentByID (DepartmentID x)) (take (Suc k) emps)\<rparr>)"
  using assms
proof (induction emps arbitrary: acc c k)
  case Nil
  then show ?case by simp
next
  case (Cons x emps)
  let ?c = "c\<lparr>sent := sent c @ [SelectDepartmentByID (DepartmentID x)]\<rparr>"
  obtain d err c1 where g: "GetDepartmentByID (DepartmentID x) c = (d, err, c1)"
    by (cases "GetDepartmentByID (DepartmentID x) c") auto
  have c1: "c1 = ?c" using GetDepartmentByID_conn [of "DepartmentID x" c] g
    by (simp add: conn_of_def)
  have err: "err = map_option (Errorf ''failed to query department'')
       (department_lookup_error c (length (sent c)) (DepartmentID x))"
    using GetDepartmentByID_error [of "DepartmentID x" c] g by (simp add: error_of_def)
  show ?case
  proof (cases k)
    case 0
    with Cons.prems g c1 err show ?thesis by simp
  next
    case (Suc k')
    from Cons.prems(3) Suc have nf: "department_lookup_error c (length (sent c)) (DepartmentID x) = None"
      by (auto dest: spec [of _ 0])
    have 1: "k' < length emps" using Cons.prems(1) Suc by simp
    have 2: "department_lookup_error ?c (length (sent ?c) + k') (DepartmentID (emps ! k')) = Some e"
      using Cons.prems(2) Suc by simp
    have 3: "\<forall>j<k'. department_lookup_error ?c (length (sent ?c) + j) (DepartmentID (emps ! j)) = None"
    proof (intro allI impI)
      fix j assume "j < k'"
      then have "Suc j < k" using Suc by simp
      with Cons.prems(3) have "department_lookup_error c (length (sent c) + Suc j) (DepartmentID ((x # emps) ! Suc j)) = None" by blast
      then show "department_lookup_error ?c (length (sent ?c) + j) (DepartmentID (emps ! j)) = None"
        by simp
    qed
    show ?thesis
      using Cons.IH [OF 1 2 3] nf Suc g c1 err
      by simp
  qed
qed

text \<open>
  What the naive strategy does with a lookup error that reaches it.  In a run whose first
  statement succeeds and in which the lookup for parent number \<open>k\<close> is the first to
  report an error, the operation returns the nil slice, not the aggregates assembled so
  far, together with that error wrapped in a message that names the parent's id.  For an
  order's details the reported errors are those of sending the statement; for an
  employee's department they include a failed fetch and a failed scan.
\<close>

lemma reported_lookup_error_discards_results:
  "(error_of (Problem_GetOrdersByDays days c) = None \<and>
    k < len (result_of (Problem_GetOrdersByDays days c)) \<and>
    details_lookup_error c (length (sent c) + 1 + k) = Some e \<and>
    (\<forall>j<k. details_lookup_error c (length (sent c) + 1 + j) = None)
    \<longrightarrow>
    result_of (GetOrdersWithDetails days c) = NilSlice \<and>
    error_of (GetOrdersWithDetails days c) =
      Some (Errorf (''failed to get details for order '' @
                      show_int (OrderID (elems (result_of (Problem_GetOrdersByDays days c)) ! k)))
              (Errorf ''failed to execute order details query'' e))) \<and>
   (error_of (Problem_GetAllEmployees c) = None \<and>
    k' < len (result_of (Problem_GetAllEmployees c)) \<and>
    department_lookup_error c (length (sent c) + 1 + k')
      (DepartmentID (elems (result_of (Problem_GetAllEmployees c)) ! k')) = Some e' \<and>
    (\<forall>j<k'. department_lookup_error c (length (sent c) + 1 + j)
               (DepartmentID (elems (result_of (Problem_GetAllEmployees c)) ! j)) = None)
    \<longrightarrow>
    result_of (GetEmployeesWithDepartment c) = NilSlice \<and>
    error_of (GetEmployeesWithDepartment c) =
      Some (Errorf (''failed to get department for employee '' @
                      show_int (EmployeeID (elems (result_of (Problem_GetAllEmployees c)) ! k')))
              (Errorf ''failed to query department'' e')))"
proof (intro conjI impI; elim conjE)
  assume ok: "error_of (Problem_GetOrdersByDays days c) = None"
    and k: "k < len (result_of (Problem_GetOrdersByDays days c))"
    and e: "details_lookup_error c (length (sent c) + 1 + k) = Some e"
    and first: "\<forall>j<k. details_lookup_error c (length (sent c) + 1 + j) = None"
  obtain os c1 where p: "Problem_GetOrdersByDays days c = (os, None, c1)"
    using ok by (cases "Problem_GetOrdersByDays days c") (simp add: error_of_def)
  have c1: "c1 = c\<lparr>sent := sent c @ [SelectOrdersByDays days]\<rparr>"
    by (rule Problem_GetOrdersByDays_ok(1) [OF p])
  have "details_loop (elems os) NilSlice c1 =
          (NilSlice,
           Some (Errorf (''failed to get details for order '' @ show_int (OrderID (elems os ! k)))
                   (Errorf ''failed to execute order details query'' e)),
           c1\<lparr>sent := sent c1 @ map (\<lambda>x. SelectDetailsByOrderID (OrderID x))
                                    (take (Suc k) (elems os))\<rparr>)"
  proof (rule details_loop_fails)
    show "k < length (elems os)" using k p by (simp add: len_def result_of_def)
    show "details_lookup_error c1 (length (sent c1) + k) = Some e"
      using e by (simp add: c1)
    show "\<forall>j<k. details_lookup_error c1 (length (sent c1) + j) = None"
      using first by (simp add: c1)
  qed
  then have run: "GetOrdersWithDetails days c =
          (NilSlice,
           Some (Errorf (''failed to get details for order '' @ show_int (OrderID (elems os ! k)))
                   (Errorf ''failed to execute order details query'' e)),
           c1\<lparr>sent := sent c1 @ map (\<lambda>x. SelectDetailsByOrderID (OrderID x))
                                    (take (Suc k) (elems os))\<rparr>)"
    using p by (simp add: GetOrdersWithDetails_def)
  show "result_of (GetOrdersWithDetails days c) = NilSlice"
    by (simp add: run result_of_def)
  show "error_of (GetOrdersWithDetails days c) =
      Some (Errorf (''failed to get details for order '' @
                      show_int (OrderID (elems (result_of (Problem_GetOrdersByDays days c)) ! k)))
              (Errorf ''failed to execute order details query'' e))"
    by (simp add: run p error_of_def result_of_def)
next
  assume ok: "error_of (Problem_GetAllEmployees c) = None"
    and k: "k' < len (result_of (Problem_GetAllEmployees c))"
    and e: "department_lookup_error c (length (sent c) + 1 + k')
      (DepartmentID (elems (result_of (Problem_GetAllEmployees c)) ! k')) = Some e'"
    and first: "\<forall>j<k'. department_lookup_error c (length (sent c) + 1 + j)
               (DepartmentID (elems (result_of (Problem_GetAllEmployees c)) ! j)) = None"
  obtain es c1 where p: "Problem_GetAllEmployees c = (es, None, c1)"
    using ok by (cases "Problem_GetAllEmployees c") (simp add: error_of_def)
  have c1: "c1 = c\<lparr>sent := sent c @ [SelectAllEmployees]\<rparr>"
    using p by (auto simp: Problem_GetAllEmployees_def Query_def split: if_splits sum.splits)
  have "departments_loop (elems es) NilSlice c1 =
          (NilSlice,
           Some (Errorf (''failed to get department for employee '' @
                           show_int (EmployeeID (elems es ! k')))
                   (Errorf ''failed to query department'' e')),
           c1\<lparr>sent := sent c1 @ map (\<lambda>x. SelectDepartmentByID (DepartmentID x))
                                    (take (Suc k') (elems es))\<rparr>)"
  proof (rule departments_loop_fails)
    show "k' < length (elems es)" using k p by (simp add: len_def result_of_def)
    show "department_lookup_error c1 (length (sent c1) + k') (DepartmentID (elems es ! k')) = Some e'"
      using e p by (simp add: c1 result_of_def)
    show "\<forall>j<k'. department_lookup_error c1 (length (sent c1) + j) (DepartmentID (elems es ! j)) = None"
      using first p by (simp add: c1 result_of_def)
  qed
  then have run: "GetEmployeesWithDepartment c =
          (NilSlice,
           Some (Errorf (''failed to get department for employee '' @
                           show_int (EmployeeID (elems es ! k')))
                   (Errorf ''failed to query department'' e')),
           c1\<lparr>sent := sent c1 @ map (\<lambda>x. SelectDepartmentByID (DepartmentID x))
                                    (take (Suc k') (elems es))\<rparr>)"
    using p by (simp add: GetEmployeesWithDepartment_def)
  show "result_of (GetEmployeesWithDepartment c) = NilSlice"
    by (simp add: run result_of_def)
  show "error_of (GetEmployeesWithDepartment c) =
      Some (Errorf (''failed to get department for employee '' @
                      show_int (EmployeeID (elems (result_of (Problem_GetAllEmployees c)) ! k')))
              (Errorf ''failed to query department'' e'))"
    by (simp add: run p error_of_def result_of_def)
qed

lemmas show_defs = show_int_def show_nat.simps digit_char_def

lemma reported_lookup_error_discards_results_example:
  "error_of (Problem_GetOrdersByDays 30 (failing_at 2 demo_conn)) = None \<and>
   1 < len (result_of (Problem_GetOrdersByDays 30 (failing_at 2 demo_conn))) \<and>
   details_lookup_error (failing_at 2 demo_conn) (length (sent (failing_at 2 demo_conn)) + 1 + 1)
     = Some ErrDriver \<and>
   details_lookup_error (failing_at 2 demo_conn)
     (length (sent (failing_at 2 demo_conn)) + 1 + 0) = None \<and>
   result_of (GetOrdersWithDetails 30 (failing_at 2 demo_conn)) = NilSlice \<and>
   error_of (GetOrdersWithDetails 30 (failing_at 2 demo_conn)) =
     Some (Errorf ''failed to get details for order 2''
             (Errorf ''failed to execute order details query'' ErrDriver)) \<and>
   error_of (Problem_GetAllEmployees (failing_at 2 demo_conn)) = None \<and>
   1 < len (result_of (Problem_GetAllEmployees (failing_at 2 demo_conn))) \<and>
   department_lookup_error (failing_at 2 demo_conn)
     (length (sent (failing_at 2 demo_conn)) + 1 + 1)
     (DepartmentID (elems (result_of (Problem_GetAllEmployees (failing_at 2 demo_conn))) ! 1))
     = Some ErrDriver \<and>
   department_lookup_error (failing_at 2 demo_conn)
     (length (sent (failing_at 2 demo_conn)) + 1 + 0)
     (DepartmentID (elems (result_of (Problem_GetAllEmployees (failing_at 2 demo_conn))) ! 0))
     = None \<and>
   result_of (GetEmployeesWithDepartment (failing_at 2 demo_conn)) = NilSlice \<and>
   error_of (GetEmployeesWithDepartment (failing_at 2 demo_conn)) =
     Some (Errorf ''failed to get department for employee 2''
             (Errorf ''failed to query department'' ErrDriver))"
proof -
  let ?c = "failing_at 2 demo_conn"
  note ev = failing_at_def sample_defs order_defs employee_defs outcome_defs
    details_lookup_error_def department_lookup_error_def
  have h1: "error_of (Problem_GetOrdersByDays 30 ?c) = None \<and>
    1 < len (result_of (Problem_GetOrdersByDays 30 ?c)) \<and>
    details_lookup_error ?c (length (sent ?c) + 1 + 1) = Some ErrDriver \<and>
    (\<forall>j<1. details_lookup_error ?c (length (sent ?c) + 1 + j) = None)"
    by (simp add: ev)
  have h2: "error_of (Problem_GetAllEmployees ?c) = None \<and>
    1 < len (result_of (Problem_GetAllEmployees ?c)) \<and>
    department_lookup_error ?c (length (sent ?c) + 1 + 1)
      (DepartmentID (elems (result_of (Problem_GetAllEmployees ?c)) ! 1)) = Some ErrDriver \<and>
    (\<forall>j<1. department_lookup_error ?c (length (sent ?c) + 1 + j)
      (DepartmentID (elems (result_of (Problem_GetAllEmployees ?c)) ! j)) = None)"
    by (simp add: ev)
  have ids: "show_int (OrderID (elems (result_of (Problem_GetOrdersByDays 30 ?c)) ! 1)) = ''2''"
    "show_int (EmployeeID (elems (result_of (Problem_GetAllEmployees ?c)) ! 1)) = ''2''"
    by (simp_all add: ev show_defs)
  from reported_lookup_error_discards_results [of 30 ?c 1 ErrDriver 1 ErrDriver] h1 h2
  have "result_of (GetOrdersWithDetails 30 ?c) = NilSlice \<and>
    error_of (GetOrdersWithDetails 30 ?c) =
      Some (Errorf (''failed to get details for order '' @
              show_int (OrderID (elems (result_of (Problem_GetOrdersByDays 30 ?c)) ! 1)))
            (Errorf ''failed to execute order details query'' ErrDriver)) \<and>
    result_of (GetEmployeesWithDepartment ?c) = NilSlice \<and>
    error_of (GetEmployeesWithDepartment ?c) =
      Some (Errorf (''failed to get department for employee '' @
              show_int (EmployeeID (elems (result_of (Problem_GetAllEmployees ?c)) ! 1)))
            (Errorf ''failed to query department'' ErrDriver))"
    by blast
  then show ?thesis using h1 h2 unfolding ids by simp
qed

text \<open>
  C8.  On the sample database, with a driver that sends every statement and fails while
  it fetches the detail rows of order 1 (the second statement of the run), after the
  first of the two rows that statement selects, the naive strategy returns no error: it
  returns order 1 with detail 4 alone, followed by order 2, after sending the lookup for
  order 2 as well.  The failed lookup is neither reported nor does it discard the result.
  The same failure in the first lookup of the employee run is reported, wrapped in a
  message naming employee 1, with the nil slice.
\<close>

theorem naive_fetch_failure_returns_partial_result:
  "map od_detail_id (rows_details_by_order_id (tables (stopping_at 1 1 demo_conn)) 1) = [4, 5] \<and>
   error_of (GetOrdersWithDetails 30 (stopping_at 1 1 demo_conn)) = None \<and>
   map (\<lambda>a. (OrderID (Order a), map DetailID (elems (Details a))))
     (elems (result_of (GetOrdersWithDetails 30 (stopping_at 1 1 demo_conn)))) =
     [(1, [4]), (2, [])] \<and>
   issued (stopping_at 1 1 demo_conn) (GetOrdersWithDetails 30 (stopping_at 1 1 demo_conn)) =
     [SelectOrdersByDays 30, SelectDetailsByOrderID 1, SelectDetailsByOrderID 2] \<and>
   result_of (GetEmployeesWithDepartment (stopping_at 1 0 demo_conn)) = NilSlice \<and>
   error_of (GetEmployeesWithDepartment (stopping_at 1 0 demo_conn)) =
     Some (Errorf ''failed to get department for employee 1''
             (Errorf ''failed to query department'' ErrDriver))"
  by (simp add: stopping_at_def outcome_defs sample_defs order_defs employee_defs show_defs)
section \<open>The batch strategies on an empty selection\<close>

text \<open>
  C3.  When the first statement of a batch strategy runs and selects no parent, the
  strategy returns an empty slice that is not nil, without error, and the connection has
  received that one statement and nothing else.  This holds for orders and for employees.
\<close>

theorem batch_zero_parents_single_query:
  "\<not> faulty c (length (sent c)) \<Longrightarrow>
   (rows_orders_by_days (tables c) days = [] \<longrightarrow>
      GetOrdersWithDetailsBatch days c =
        (Slice [], None, c\<lparr>sent := sent c @ [SelectOrdersByDays days]\<rparr>)) \<and>
   (rows_all_employees (tables c) = [] \<longrightarrow>
      GetEmployeesWithDepartmentBatch visit c =
        (Slice [], None, c\<lparr>sent := sent c @ [SelectAllEmployees]\<rparr>))"
  by (simp add: GetOrdersWithDetailsBatch_def Optimized_GetOrdersByDays_def
      GetEmployeesWithDepartmentBatch_def Optimized_GetAllEmployees_def Query_def len_def)

theorem batch_zero_parents_single_query_witness:
  "\<not> faulty empty_conn (length (sent empty_conn)) \<and>
   rows_orders_by_days (tables empty_conn) 30 = [] \<and>
   rows_all_employees (tables empty_conn) = [] \<and>
   result_of (GetOrdersWithDetailsBatch 30 empty_conn) = Slice [] \<and>
   error_of (GetOrdersWithDetailsBatch 30 empty_conn) = None \<and>
   issued empty_conn (GetOrdersWithDetailsBatch 30 empty_conn) = [SelectOrdersByDays 30] \<and>
   result_of (GetEmployeesWithDepartmentBatch rev empty_conn) = Slice [] \<and>
   error_of (GetEmployeesWithDepartmentBatch rev empty_conn) = None \<and>
   issued empty_conn (GetEmployeesWithDepartmentBatch rev empty_conn) = [SelectAllEmployees]"
proof -
  have h: "\<not> faulty empty_conn (length (sent empty_conn))"
    "rows_orders_by_days (tables empty_conn) 30 = []"
    "rows_all_employees (tables empty_conn) = []"
    by (simp_all add: empty_conn_def rows_orders_by_days_def rows_all_employees_def)
  have s: "sent empty_conn = []" by (simp add: empty_conn_def)
  show ?thesis
    using batch_zero_parents_single_query [OF h(1), of 30 rev] h
    by (simp add: outcome_defs s)
qed

section \<open>Nil and empty details\<close>

lemma map_of_map_store: "map_of (map_store k v m) k' = (if k' = k then Some v else map_of m k')"
  by (induction m) auto

lemma map_store_values:
  "(k', v') \<in> set (map_store k v m) \<Longrightarrow> v' = v \<or> (k', v') \<in> set m"
  by (induction m) (auto split: if_splits)

lemma join_step_not_nil:
  assumes "\<forall>p\<in>set m. Details (snd p) \<noteq> NilSlice"
  shows "\<forall>p\<in>set (join_step row m). Details (snd p) \<noteq> NilSlice"
proof -
  let ?m1 = "case map_of m (OrderID (fst row)) of
               None \<Rightarrow> map_store (OrderID (fst row)) \<lparr>Order = fst row, Details = Slice []\<rparr> m
             | Some _ \<Rightarrow> m"
  have m1: "\<forall>p\<in>set ?m1. Details (snd p) \<noteq> NilSlice"
    using assms by (auto split: option.splits dest!: map_store_values)
  show ?thesis
  proof (cases "snd row")
    case None
    then show ?thesis using m1 by (simp add: join_step_def Let_def)
  next
    case (Some detail)
    show ?thesis
    proof (cases "map_of ?m1 (OrderID (fst row))")
      case None
      then show ?thesis using m1 Some by (simp add: join_step_def Let_def)
    next
      case (Some entry)
      have "join_step row m =
              map_store (OrderID (fst row))
                (entry\<lparr>Details := append_slice (Details entry) detail\<rparr>) ?m1"
        using Some \<open>snd row = Some detail\<close> by (simp add: join_step_def Let_def)
      then show ?thesis using m1
        by (auto simp: append_slice_def dest!: map_store_values)
    qed
  qed
qed

lemma join_loop_not_nil:
  "join_loop c rs m = Inr m' \<Longrightarrow> \<forall>p\<in>set m. Details (snd p) \<noteq> NilSlice \<Longrightarrow>
     \<forall>p\<in>set m'. Details (snd p) \<noteq> NilSlice"
proof (induction rs arbitrary: m)
  case Nil
  then show ?case by simp
next
  case (Cons r rs)
  from Cons.prems(1) obtain row where
    row: "scan_join_row c r = Inr row" "join_loop c rs (join_step row m) = Inr m'"
    by (auto split: sum.splits)
  show ?case
    by (rule Cons.IH [OF row(2) join_step_not_nil [OF Cons.prems(2)]])
qed

lemma map_range_subset: "set (map_range visit m) \<subseteq> set m"
  by (auto simp: map_range_def List.map_filter_def dest: map_of_SomeD)

lemma join_details_not_nil:
  assumes "a \<in> set (elems (result_of (GetOrdersWithDetailsJoin visit days c)))"
  shows "Details a \<noteq> NilSlice"
proof -
  from assms obtain m where
    m: "join_loop (c\<lparr>sent := sent c @ [SelectOrdersJoinDetails days]\<rparr>)
          (delivered_at c (length (sent c)) (rows_orders_join (tables c) days)) [] = Inr m"
    and a: "a \<in> snd ` set (map_range visit m)"
    by (auto simp: GetOrdersWithDetailsJoin_def Query_def result_of_def
        split: if_splits sum.splits)
  have "\<forall>p\<in>set m. Details (snd p) \<noteq> NilSlice"
    by (rule join_loop_not_nil [OF m]) simp
  then show ?thesis using a map_range_subset [of visit m] by auto
qed

lemma batch_details_not_nil:
  assumes "a \<in> set (elems (result_of (GetOrdersWithDetailsBatch days c)))"
  shows "Details a \<noteq> NilSlice"
proof -
  have "\<And>m x. Details (assemble_order m x) \<noteq> NilSlice"
    by (simp add: assemble_order_def Let_def)
  then show ?thesis using assms
    by (auto simp: GetOrdersWithDetailsBatch_def result_of_def
        split: prod.splits option.splits if_splits)
qed

text \<open>
  C5.  The naive strategy, run on the sample database, returns order 2, which has no
  detail rows, with the nil slice as its details; the join and the batch strategy return
  it with an empty slice.
\<close>

theorem naive_details_nil_without_rows:
  "error_of (GetOrdersWithDetails 30 demo_conn) = None \<and>
   map (\<lambda>a. (OrderID (Order a), Details a = NilSlice))
     (elems (result_of (GetOrdersWithDetails 30 demo_conn))) = [(1, False), (2, True)] \<and>
   map (\<lambda>a. (OrderID (Order a), Details a = Slice []))
     (elems (result_of (GetOrdersWithDetailsBatch 30 demo_conn))) = [(1, False), (2, True)]"
  by (simp add: outcome_defs sample_defs order_defs)

section \<open>The order of the join strategy's result\<close>

lemma rev_visits_each_once: "visits_each_once rev"
  by (simp add: visits_each_once_def)

lemma id_visits_each_once: "visits_each_once (\<lambda>ks. ks)"
  by (simp add: visits_each_once_def)

text \<open>
  C1.  On the sample database the join strategy returns order 2 before order 1 when the
  runtime ranges over the map in one order, and order 1 before order 2 when it ranges in
  another: the order of the result is the order of the map iteration.
\<close>

theorem join_result_in_map_iteration_order:
  "error_of (GetOrdersWithDetailsJoin rev 30 demo_conn) = None \<and>
   map (\<lambda>a. OrderID (Order a))
     (elems (result_of (GetOrdersWithDetailsJoin rev 30 demo_conn))) = [2, 1] \<and>
   map (\<lambda>a. OrderID (Order a))
     (elems (result_of (GetOrdersWithDetailsJoin (\<lambda>ks. ks) 30 demo_conn))) = [1, 2]"
  by (simp add: outcome_defs sample_defs order_defs)

text \<open>
  C2.  On the sample database, with a runtime that ranges over the map from the last key
  stored to the first, the join strategy returns orders 2, 1 while the batch and the naive
  strategy return orders 1, 2 (each with the same details per order).
\<close>

theorem join_differs_from_batch_and_naive:
  "map (\<lambda>a. (OrderID (Order a), map DetailID (elems (Details a))))
     (elems (result_of (GetOrdersWithDetailsJoin rev 30 demo_conn))) = [(2, []), (1, [4, 5])] \<and>
   map (\<lambda>a. (OrderID (Order a), map DetailID (elems (Details a))))
     (elems (result_of (GetOrdersWithDetailsBatch 30 demo_conn))) = [(1, [4, 5]), (2, [])] \<and>
   map (\<lambda>a. (OrderID (Order a), map DetailID (elems (Details a))))
     (elems (result_of (GetOrdersWithDetails 30 demo_conn))) = [(1, [4, 5]), (2, [])]"
  by (simp add: outcome_defs sample_defs order_defs)
section \<open>The membership list of the employee batch\<close>

lemma map_keys_map_store:
  "map_keys (map_store k v m) = (if k \<in> set (map_keys m) then map_keys m else map_keys m @ [k])"
  by (induction m) (auto simp: map_keys_def)

lemma collect_department_ids_keys:
  "distinct (map_keys m) \<Longrightarrow>
     distinct (map_keys (collect_department_ids emps m)) \<and>
     set (map_keys (collect_department_ids emps m)) = set (map_keys m) \<union> DepartmentID ` set emps"
proof (induction emps arbitrary: m)
  case Nil
  then show ?case by simp
next
  case (Cons e emps)
  have "distinct (map_keys (map_store (DepartmentID e) True m))"
    using Cons.prems by (simp add: map_keys_map_store)
  from Cons.IH [OF this] show ?case
    by (auto simp: map_keys_map_store split: if_splits)
qed

lemma map_range_keys:
  assumes "set (visit (map_keys m)) \<subseteq> set (map_keys m)"
  shows "map fst (map_range visit m) = visit (map_keys m)"
proof -
  have "\<And>ks. set ks \<subseteq> set (map_keys m) \<Longrightarrow>
          map fst (List.map_filter (\<lambda>k. map_option (Pair k) (map_of m k)) ks) = ks"
  proof -
    fix ks show "set ks \<subseteq> set (map_keys m) \<Longrightarrow>
          map fst (List.map_filter (\<lambda>k. map_option (Pair k) (map_of m k)) ks) = ks"
    proof (induction ks)
      case Nil
      then show ?case by (simp add: List.map_filter_simps)
    next
      case (Cons k ks)
      then have "k \<in> fst ` set m" by (simp add: map_keys_def)
      then obtain v where "map_of m k = Some v"
        by (metis domD dom_map_of_conv_image_fst)
      with Cons show ?case by (simp add: List.map_filter_simps)
    qed
  qed
  from this [OF assms] show ?thesis by (simp add: map_range_def)
qed

lemma department_id_list_visit:
  assumes "visits_each_once visit"
  shows "department_id_list visit emps = visit (map_keys (collect_department_ids emps []))"
proof -
  have "mset (visit (map_keys (collect_department_ids emps []))) =
          mset (map_keys (collect_department_ids emps []))"
    using assms by (simp add: visits_each_once_def)
  then have "set (visit (map_keys (collect_department_ids emps []))) =
          set (map_keys (collect_department_ids emps []))"
    by (rule mset_eq_setD)
  then show ?thesis by (simp add: department_id_list_def map_range_keys)
qed

lemma department_id_list_props:
  assumes "visits_each_once visit"
  shows "distinct (department_id_list visit emps)"
    and "set (department_id_list visit emps) = set (map DepartmentID emps)"
    and "length (department_id_list visit emps) \<le> length emps"
    and "length (department_id_list visit emps) = length emps \<longleftrightarrow>
           distinct (map DepartmentID emps)"
proof -
  let ?ks = "map_keys (collect_department_ids emps [])"
  let ?ids = "department_id_list visit emps"
  have ks: "distinct ?ks" "set ?ks = DepartmentID ` set emps"
    using collect_department_ids_keys [of "[]" emps] by (simp_all add: map_keys_def)
  have m: "mset ?ids = mset ?ks"
    using assms by (simp add: department_id_list_visit visits_each_once_def)
  show d: "distinct ?ids" using m ks(1) by (metis mset_eq_imp_distinct_iff)
  show s: "set ?ids = set (map DepartmentID emps)" using m ks(2) by (metis mset_eq_setD set_map)
  have l: "length ?ids = card (set (map DepartmentID emps))"
    using d s by (metis distinct_card)
  show "length ?ids \<le> length emps"
    unfolding l by (metis card_length length_map)
  show "length ?ids = length emps \<longleftrightarrow> distinct (map DepartmentID emps)"
    unfolding l by (metis card_distinct distinct_card length_map)
qed

lemma GetDepartmentsByIDs_sent:
  "sent (conn_of (GetDepartmentsByIDs ids c)) =
     (if ids = [] then sent c else sent c @ [SelectDepartmentsByIDs ids])"
  by (auto simp: GetDepartmentsByIDs_def Query_def conn_of_def split: sum.splits)

lemma Optimized_GetAllEmployees_conn:
  "conn_of (Optimized_GetAllEmployees c) = c\<lparr>sent := sent c @ [SelectAllEmployees]\<rparr>"
  by (auto simp: Optimized_GetAllEmployees_def Query_def conn_of_def split: sum.splits)

text \<open>
  C7.  When the first statement of the employee batch returns at least one employee, the
  second statement is sent with a list of department ids that has no repetition and holds
  exactly the department ids of those employees; the list is at most as long as the list of
  employees, and as long exactly when the employees' department ids are pairwise
  different.
\<close>

theorem batch_membership_list_deduplicated:
  assumes "visits_each_once visit"
    and "error_of (Optimized_GetAllEmployees c) = None"
    and "len (result_of (Optimized_GetAllEmployees c)) \<noteq> 0"
  shows "issued c (GetEmployeesWithDepartmentBatch visit c) =
           [SelectAllEmployees,
            SelectDepartmentsByIDs
              (department_id_list visit (elems (result_of (Optimized_GetAllEmployees c))))] \<and>
         distinct (department_id_list visit (elems (result_of (Optimized_GetAllEmployees c)))) \<and>
         set (department_id_list visit (elems (result_of (Optimized_GetAllEmployees c)))) =
           set (map DepartmentID (elems (result_of (Optimized_GetAllEmployees c)))) \<and>
         length (department_id_list visit (elems (result_of (Optimized_GetAllEmployees c))))
           \<le> len (result_of (Optimized_GetAllEmployees c)) \<and>
         (length (department_id_list visit (elems (result_of (Optimized_GetAllEmployees c))))
            = len (result_of (Optimized_GetAllEmployees c)) \<longleftrightarrow>
          distinct (map DepartmentID (elems (result_of (Optimized_GetAllEmployees c)))))"
proof -
  obtain emps c1 where p: "Optimized_GetAllEmployees c = (emps, None, c1)"
    using assms(2) by (cases "Optimized_GetAllEmployees c") (simp add: error_of_def)
  have c1: "c1 = c\<lparr>sent := sent c @ [SelectAllEmployees]\<rparr>"
    using Optimized_GetAllEmployees_conn [of c] p by (simp add: conn_of_def)
  have ne: "len emps \<noteq> 0" using assms(3) p by (simp add: result_of_def)
  let ?ids = "department_id_list visit (elems emps)"
  note props = department_id_list_props [OF assms(1), of "elems emps"]
  have "set ?ids \<noteq> {}" using props(2) ne by (simp add: len_def)
  then have ids_ne: "?ids \<noteq> []" by auto
  have "conn_of (GetEmployeesWithDepartmentBatch visit c) = conn_of (GetDepartmentsByIDs ?ids c1)"
    using p ne by (simp add: GetEmployeesWithDepartmentBatch_def conn_of_def split: prod.splits option.splits)
  then have "issued c (GetEmployeesWithDepartmentBatch visit c) =
               [SelectAllEmployees, SelectDepartmentsByIDs ?ids]"
    using ids_ne by (simp add: issued_def GetDepartmentsByIDs_sent c1)
  then show ?thesis using props p by (simp add: result_of_def len_def)
qed

theorem batch_membership_list_deduplicated_witness:
  "visits_each_once (rev :: int list \<Rightarrow> int list) \<and>
   error_of (Optimized_GetAllEmployees demo_conn) = None \<and>
   len (result_of (Optimized_GetAllEmployees demo_conn)) = 3 \<and>
   map DepartmentID (elems (result_of (Optimized_GetAllEmployees demo_conn))) = [3, 9, 3] \<and>
   department_id_list rev (elems (result_of (Optimized_GetAllEmployees demo_conn))) = [9, 3] \<and>
   issued demo_conn (GetEmployeesWithDepartmentBatch rev demo_conn) =
     [SelectAllEmployees, SelectDepartmentsByIDs [9, 3]]"
proof -
  have h: "visits_each_once (rev :: int list \<Rightarrow> int list)"
    "error_of (Optimized_GetAllEmployees demo_conn) = None"
    "len (result_of (Optimized_GetAllEmployees demo_conn)) = 3"
    "map DepartmentID (elems (result_of (Optimized_GetAllEmployees demo_conn))) = [3, 9, 3]"
    "department_id_list rev (elems (result_of (Optimized_GetAllEmployees demo_conn))) = [9, 3]"
    by (simp_all add: visits_each_once_def outcome_defs sample_defs employee_defs)
  from h(3) have ne: "len (result_of (Optimized_GetAllEmployees demo_conn)) \<noteq> 0" by simp
  have "issued demo_conn (GetEmployeesWithDepartmentBatch rev demo_conn) =
     [SelectAllEmployees, SelectDepartmentsByIDs [9, 3]]"
    using batch_membership_list_deduplicated [OF h(1) h(2) ne] unfolding h(5) by blast
  then show ?thesis using h by blast
qed
section \<open>The employee join\<close>

lemma scan_Employee_frame [simp]: "scan_Employee (c\<lparr>sent := s\<rparr>) = scan_Employee c"
  by (rule ext) (simp add: scan_Employee_def split: sum.splits)

lemma scan_employee_join_row_frame [simp]:
  "scan_employee_join_row (c\<lparr>sent := s\<rparr>) = scan_employee_join_row c"
  by (rule ext) (simp add: scan_employee_join_row_def)

lemma map_Inr_list_all2: "map f rs = map Inr xs \<Longrightarrow> list_all2 (\<lambda>r a. f r = Inr a) rs xs"
  by (induction rs arbitrary: xs) auto

lemma join_employees_rows:
  assumes "error_of (GetEmployeesWithDepartmentJoin c) = None"
  shows "list_all2 (\<lambda>r a. scan_employee_join_row c r = Inr a)
           (delivered_at c (length (sent c)) (rows_employees_join (tables c)))
           (elems (result_of (GetEmployeesWithDepartmentJoin c)))"
proof -
  let ?c = "c\<lparr>sent := sent c @ [SelectEmployeesJoinDepartments]\<rparr>"
  from assms obtain res where
    f: "fetch_all (scan_employee_join_row ?c)
          (delivered_at c (length (sent c)) (rows_employees_join (tables c))) NilSlice = Inr res"
    and r: "result_of (GetEmployeesWithDepartmentJoin c) = res"
    by (auto simp: GetEmployeesWithDepartmentJoin_def Query_def outcome_defs
        split: if_splits sum.splits)
  from fetch_all_Inr [OF f] obtain xs where
    xs: "map (scan_employee_join_row ?c)
           (delivered_at c (length (sent c)) (rows_employees_join (tables c))) = map Inr xs"
        "res = (if delivered_at c (length (sent c)) (rows_employees_join (tables c)) = []
                then NilSlice else Slice xs)"
    by auto
  have "elems res = xs" using xs by (auto split: if_splits)
  then show ?thesis using map_Inr_list_all2 [OF xs(1)] r by simp
qed

lemma scan_employee_join_row_department:
  assumes "scan_employee_join_row c r = Inr a"
  shows "(Department a \<noteq> None) = (fst (snd r) \<noteq> None \<and> snd (snd r) \<noteq> None)"
    and "EmployeeID (Employee a) = e_employee_id (fst r)"
    and "Some (DepartmentID (Employee a)) = e_department_id (fst r)"
    and "Department a = Some d \<Longrightarrow>
           DeptDepartmentID d = DepartmentID (Employee a) \<and>
           Some (DepartmentName d) = fst (snd r) \<and> Some (Location d) = snd (snd r)"
  using assms
  by (cases r; auto simp: scan_employee_join_row_def scan_Employee_def scan_col_def
      split: sum.splits option.splits)+

lemma left_join_departments_match:
  assumes "d \<in> set (tbl_departments db)" and "e_department_id e = Some (d_department_id d)"
  shows "(e, Some (d_department_name d), d_location d) \<in> set (left_join_departments db e)"
proof -
  let ?ds = "filter (\<lambda>d. e_department_id e = Some (d_department_id d)) (tbl_departments db)"
  have "d \<in> set ?ds" using assms by simp
  then show ?thesis
    by (cases ?ds) (auto simp: left_join_departments_def image_iff)
qed

lemma rows_employees_join_match:
  assumes "e \<in> set (tbl_employees db)" and "d \<in> set (tbl_departments db)"
    and "e_department_id e = Some (d_department_id d)"
  shows "(e, Some (d_department_name d), d_location d) \<in> set (rows_employees_join db)"
  using assms left_join_departments_match [OF assms(2,3)]
  by (auto simp: rows_employees_join_def)

text \<open>
  C10.  When the employee join returns without error, its result lists one aggregate for
  every row of the joined selection that the loop gets to see, in order, and for each of
  them: a department is attached exactly when the row's department name and location are
  both not NULL; an attached department has the employee's own department id as its id,
  and the row's name and location.  So, when the rows are fetched to the end, an employee
  whose department row exists but has a NULL location comes back with no department.
\<close>

theorem join_attaches_department_iff_both_columns:
  assumes "error_of (GetEmployeesWithDepartmentJoin c) = None"
  shows "list_all2
           (\<lambda>r a.
              EmployeeID (Employee a) = e_employee_id (fst r) \<and>
              (Department a \<noteq> None) = (fst (snd r) \<noteq> None \<and> snd (snd r) \<noteq> None) \<and>
              (case Department a of
                 None \<Rightarrow> True
               | Some d \<Rightarrow>
                   Some (DeptDepartmentID d) = e_department_id (fst r) \<and>
                   DeptDepartmentID d = DepartmentID (Employee a) \<and>
                   Some (DepartmentName d) = fst (snd r) \<and>
                   Some (Location d) = snd (snd r)))
           (delivered_at c (length (sent c)) (rows_employees_join (tables c)))
           (elems (result_of (GetEmployeesWithDepartmentJoin c))) \<and>
         (\<forall>e d. fetch_stops c (length (sent c)) = None \<and>
                 e \<in> set (tbl_employees (tables c)) \<and> d \<in> set (tbl_departments (tables c)) \<and>
                 e_department_id e = Some (d_department_id d) \<and> d_location d = None \<longrightarrow>
                 (\<exists>a. a \<in> set (elems (result_of (GetEmployeesWithDepartmentJoin c))) \<and>
                      EmployeeID (Employee a) = e_employee_id e \<and> Department a = None))"
proof (intro conjI allI impI)
  note rows = join_employees_rows [OF assms]
  show "list_all2
           (\<lambda>r a.
              EmployeeID (Employee a) = e_employee_id (fst r) \<and>
              (Department a \<noteq> None) = (fst (snd r) \<noteq> None \<and> snd (snd r) \<noteq> None) \<and>
              (case Department a of
                 None \<Rightarrow> True
               | Some d \<Rightarrow>
                   Some (DeptDepartmentID d) = e_department_id (fst r) \<and>
                   DeptDepartmentID d = DepartmentID (Employee a) \<and>
                   Some (DepartmentName d) = fst (snd r) \<and>
                   Some (Location d) = snd (snd r)))
           (delivered_at c (length (sent c)) (rows_employees_join (tables c)))
           (elems (result_of (GetEmployeesWithDepartmentJoin c)))"
  proof (rule list_all2_mono [OF rows])
    fix r a assume s: "scan_employee_join_row c r = Inr a"
    show "EmployeeID (Employee a) = e_employee_id (fst r) \<and>
              (Department a \<noteq> None) = (fst (snd r) \<noteq> None \<and> snd (snd r) \<noteq> None) \<and>
              (case Department a of
                 None \<Rightarrow> True
               | Some d \<Rightarrow>
                   Some (DeptDepartmentID d) = e_department_id (fst r) \<and>
                   DeptDepartmentID d = DepartmentID (Employee a) \<and>
                   Some (DepartmentName d) = fst (snd r) \<and>
                   Some (Location d) = snd (snd r))"
      using scan_employee_join_row_department [OF s]
      by (cases "Department a") auto
  qed
next
  fix e d
  assume h: "fetch_stops c (length (sent c)) = None \<and>
             e \<in> set (tbl_employees (tables c)) \<and> d \<in> set (tbl_departments (tables c)) \<and>
             e_department_id e = Some (d_department_id d) \<and> d_location d = None"
  then have "(e, Some (d_department_name d), None)
               \<in> set (delivered_at c (length (sent c)) (rows_employees_join (tables c)))"
    using rows_employees_join_match [of e "tables c" d] by (auto simp: delivered_at_all)
  with join_employees_rows [OF assms] obtain a where
    a: "a \<in> set (elems (result_of (GetEmployeesWithDepartmentJoin c)))"
       "scan_employee_join_row c (e, Some (d_department_name d), None) = Inr a"
    by (auto simp: list_all2_conv_all_nth in_set_conv_nth) metis
  from scan_employee_join_row_department(1,2) [OF a(2)]
  have "EmployeeID (Employee a) = e_employee_id e" "Department a = None" by auto
  with a(1) show "\<exists>a. a \<in> set (elems (result_of (GetEmployeesWithDepartmentJoin c))) \<and>
                      EmployeeID (Employee a) = e_employee_id e \<and> Department a = None"
    by blast
qed

theorem join_attaches_department_iff_both_columns_witness:
  "error_of (GetEmployeesWithDepartmentJoin no_location_conn) = None \<and>
   fetch_stops no_location_conn (length (sent no_location_conn)) = None \<and>
   map (\<lambda>r. (e_employee_id (fst r), e_department_id (fst r), snd r))
     (rows_employees_join (tables no_location_conn)) =
     [(1, Some 3, Some ''Sales'', None), (2, Some 9, None, None), (3, Some 3, Some ''Sales'', None)] \<and>
   map (\<lambda>a. (EmployeeID (Employee a), Department a))
     (elems (result_of (GetEmployeesWithDepartmentJoin no_location_conn))) =
     [(1, None), (2, None), (3, None)] \<and>
   error_of (GetEmployeesWithDepartmentJoin demo_conn) = None \<and>
   map (\<lambda>a. (EmployeeID (Employee a), Department a))
     (elems (result_of (GetEmployeesWithDepartmentJoin demo_conn))) =
     [(1, Some \<lparr>DeptDepartmentID = 3, DepartmentName = ''Sales'', Location = ''Tokyo''\<rparr>),
      (2, None),
      (3, Some \<lparr>DeptDepartmentID = 3, DepartmentName = ''Sales'', Location = ''Tokyo''\<rparr>)]"
proof -
  have h: "error_of (GetEmployeesWithDepartmentJoin no_location_conn) = None"
    "error_of (GetEmployeesWithDepartmentJoin demo_conn) = None"
    "fetch_stops no_location_conn (length (sent no_location_conn)) = None"
    by (simp_all add: outcome_defs sample_defs employee_defs)
  have v: "map (\<lambda>r. (e_employee_id (fst r), e_department_id (fst r), snd r))
     (rows_employees_join (tables no_location_conn)) =
     [(1, Some 3, Some ''Sales'', None), (2, Some 9, None, None), (3, Some 3, Some ''Sales'', None)]"
    "map (\<lambda>a. (EmployeeID (Employee a), Department a))
     (elems (result_of (GetEmployeesWithDepartmentJoin no_location_conn))) =
     [(1, None), (2, None), (3, None)]"
    "map (\<lambda>a. (EmployeeID (Employee a), Department a))
     (elems (result_of (GetEmployeesWithDepartmentJoin demo_conn))) =
     [(1, Some \<lparr>DeptDepartmentID = 3, DepartmentName = ''Sales'', Location = ''Tokyo''\<rparr>),
      (2, None),
      (3, Some \<lparr>DeptDepartmentID = 3, DepartmentName = ''Sales'', Location = ''Tokyo''\<rparr>)]"
    by (simp_all add: outcome_defs sample_defs employee_defs)
  show ?thesis
    using join_attaches_department_iff_both_columns [OF h(1)]
      join_attaches_department_iff_both_columns [OF h(2)] h v
    by blast
qed
section \<open>An employee without a department\<close>

lemma fetch_all_total:
  assumes "\<forall>r\<in>set rs. \<exists>x. scan r = Inr x"
  shows "fetch_all scan rs acc =
           Inr (if rs = [] then acc else Slice (elems acc @ map (\<lambda>r. projr (scan r)) rs))"
proof (rule fetch_all_ok)
  show "map scan rs = map Inr (map (\<lambda>r. projr (scan r)) rs)"
    using assms by auto
qed

lemma scan_Employee_total:
  assumes "employees_scannable db" and "r \<in> set (tbl_employees db)"
  shows "\<exists>x. scan_Employee c r = Inr x"
  using assms
  by (auto simp: employees_scannable_def list_all_iff scan_Employee_def scan_col_def)

lemma scan_Employee_DepartmentID:
  "scan_Employee c r = Inr emp \<Longrightarrow> e_department_id r = Some (DepartmentID emp)"
  by (auto simp: scan_Employee_def scan_col_def split: option.splits)

lemma scan_Department_total:
  assumes "departments_scannable db" and "r \<in> set (tbl_departments db)"
  shows "\<exists>x. scan_Department r = Inr x"
  using assms
  by (auto simp: departments_scannable_def list_all_iff scan_Department_def scan_col_def)

lemma scan_Department_id:
  "scan_Department r = Inr d \<Longrightarrow> DeptDepartmentID d = d_department_id r"
  by (auto simp: scan_Department_def scan_col_def split: option.splits)

lemma no_faults_frame [simp]: "no_faults (c\<lparr>sent := s\<rparr>) = no_faults c"
  by (simp add: no_faults_def)

lemma no_faults_delivered [simp]: "no_faults c \<Longrightarrow> delivered_at c pos rs = rs"
  by (simp add: no_faults_def delivered_at_def)

subsection \<open>The naive strategy\<close>

lemma all_employees_fetched:
  assumes "no_faults c" and "employees_scannable (tables c)"
  shows "Problem_GetAllEmployees c =
           ((if rows_all_employees (tables c) = [] then NilSlice
             else Slice (map (\<lambda>r. projr (scan_Employee c r)) (rows_all_employees (tables c)))),
            None, c\<lparr>sent := sent c @ [SelectAllEmployees]\<rparr>)"
    and "Optimized_GetAllEmployees c =
           ((if rows_all_employees (tables c) = [] then NilSlice
             else Slice (map (\<lambda>r. projr (scan_Employee c r)) (rows_all_employees (tables c)))),
            None, c\<lparr>sent := sent c @ [SelectAllEmployees]\<rparr>)"
proof -
  let ?c = "c\<lparr>sent := sent c @ [SelectAllEmployees]\<rparr>"
  have "\<forall>r\<in>set (rows_all_employees (tables c)). \<exists>x. scan_Employee ?c r = Inr x"
    using scan_Employee_total [OF assms(2)] by (simp add: rows_all_employees_def)
  from fetch_all_total [OF this, of NilSlice]
  have f: "fetch_all (scan_Employee ?c) (rows_all_employees (tables c)) NilSlice =
          Inr (if rows_all_employees (tables c) = [] then NilSlice
               else Slice (map (\<lambda>r. projr (scan_Employee c r)) (rows_all_employees (tables c))))"
    by simp
  have nf: "\<not> faulty c (length (sent c))" using assms(1) by (simp add: no_faults_def)
  show "Problem_GetAllEmployees c =
           ((if rows_all_employees (tables c) = [] then NilSlice
             else Slice (map (\<lambda>r. projr (scan_Employee c r)) (rows_all_employees (tables c)))),
            None, ?c)"
    using assms(1) nf f by (simp add: Problem_GetAllEmployees_def Query_def)
  show "Optimized_GetAllEmployees c =
           ((if rows_all_employees (tables c) = [] then NilSlice
             else Slice (map (\<lambda>r. projr (scan_Employee c r)) (rows_all_employees (tables c)))),
            None, ?c)"
    using assms(1) nf f by (simp add: Optimized_GetAllEmployees_def Query_def)
qed

lemma department_lookup_no_error:
  assumes "no_faults c" and "departments_scannable (tables c)"
  shows "department_lookup_error c pos k = None"
proof -
  have "\<And>r rs. rows_department_by_id (tables c) k = r # rs \<Longrightarrow> d_location r \<noteq> None"
  proof -
    fix r rs assume "rows_department_by_id (tables c) k = r # rs"
    then have "r \<in> set (rows_department_by_id (tables c) k)" by simp
    then have "r \<in> set (tbl_departments (tables c))" by (simp add: rows_department_by_id_def)
    then show "d_location r \<noteq> None"
      using assms(2) by (simp add: departments_scannable_def list_all_iff)
  qed
  then show ?thesis using assms(1)
    by (auto simp: department_lookup_error_def no_faults_def split: list.splits option.splits)
qed

lemma GetDepartmentByID_not_found:
  assumes "no_faults c" and "rows_department_by_id (tables c) k = []"
  shows "GetDepartmentByID k c = (None, None, c\<lparr>sent := sent c @ [SelectDepartmentByID k]\<rparr>)"
  using assms by (simp add: GetDepartmentByID_def fetch_departments_first no_faults_def)

lemma departments_loop_absent:
  assumes "no_faults c" and "departments_scannable (tables c)"
  shows "error_of (departments_loop emps acc c) = None \<and>
         set (elems acc) \<subseteq> set (elems (result_of (departments_loop emps acc c))) \<and>
         (\<forall>emp\<in>set emps. rows_department_by_id (tables c) (DepartmentID emp) = [] \<longrightarrow>
            \<lparr>Employee = emp, Department = None\<rparr>
              \<in> set (elems (result_of (departments_loop emps acc c))))"
  using assms
proof (induction emps arbitrary: acc c)
  case Nil
  then show ?case by (simp add: outcome_defs)
next
  case (Cons x emps)
  let ?c = "c\<lparr>sent := sent c @ [SelectDepartmentByID (DepartmentID x)]\<rparr>"
  obtain d err c1 where g: "GetDepartmentByID (DepartmentID x) c = (d, err, c1)"
    by (cases "GetDepartmentByID (DepartmentID x) c") auto
  have c1: "c1 = ?c" using GetDepartmentByID_conn [of "DepartmentID x" c] g
    by (simp add: conn_of_def)
  have err: "err = None"
    using GetDepartmentByID_error [of "DepartmentID x" c] g
      department_lookup_no_error [OF Cons.prems]
    by (simp add: error_of_def)
  have d: "rows_department_by_id (tables c) (DepartmentID x) = [] \<Longrightarrow> d = None"
    using GetDepartmentByID_not_found [OF Cons.prems(1), of "DepartmentID x"] g
    by simp
  let ?acc = "append_slice acc \<lparr>Employee = x, Department = d\<rparr>"
  have step: "departments_loop (x # emps) acc c = departments_loop emps ?acc ?c"
    using g c1 err by simp
  have nf: "no_faults ?c" "departments_scannable (tables ?c)"
    using Cons.prems by simp_all
  note ih = Cons.IH [OF nf, of ?acc]
  have acc: "set (elems ?acc) = insert \<lparr>Employee = x, Department = d\<rparr> (set (elems acc))"
    by (simp add: append_slice_def)
  show ?case
    unfolding step using ih acc d by auto
qed

lemma naive_absent:
  assumes "no_faults c" and "employees_scannable (tables c)"
    and "departments_scannable (tables c)"
    and "e \<in> set (tbl_employees (tables c))"
    and "e_department_id e = Some k"
    and "k \<notin> d_department_id ` set (tbl_departments (tables c))"
  shows "error_of (GetEmployeesWithDepartment c) = None"
    and "\<lparr>Employee = projr (scan_Employee c e), Department = None\<rparr>
           \<in> set (elems (result_of (GetEmployeesWithDepartment c)))"
proof -
  let ?c = "c\<lparr>sent := sent c @ [SelectAllEmployees]\<rparr>"
  let ?emps = "map (\<lambda>r. projr (scan_Employee c r)) (rows_all_employees (tables c))"
  have run: "GetEmployeesWithDepartment c = departments_loop ?emps NilSlice ?c"
    using all_employees_fetched(1) [OF assms(1,2)]
    by (simp add: GetEmployeesWithDepartment_def)
  have nf: "no_faults ?c" "departments_scannable (tables ?c)"
    using assms(1,3) by simp_all
  note loop = departments_loop_absent [OF nf, of ?emps NilSlice]
  show "error_of (GetEmployeesWithDepartment c) = None" using loop by (simp add: run)
  obtain emp where emp: "scan_Employee c e = Inr emp"
    using scan_Employee_total [OF assms(2,4)] by blast
  have k: "DepartmentID emp = k" using scan_Employee_DepartmentID [OF emp] assms(5) by simp
  have "emp \<in> set ?emps" using assms(4) emp by (force simp: rows_all_employees_def)
  moreover have "rows_department_by_id (tables ?c) (DepartmentID emp) = []"
    using assms(6) k by (force simp: rows_department_by_id_def filter_empty_conv image_iff)
  ultimately have "\<lparr>Employee = emp, Department = None\<rparr>
      \<in> set (elems (result_of (departments_loop ?emps NilSlice ?c)))"
    using loop by blast
  then show "\<lparr>Employee = projr (scan_Employee c e), Department = None\<rparr>
           \<in> set (elems (result_of (GetEmployeesWithDepartment c)))"
    using emp by (simp add: run)
qed

subsection \<open>The join strategy\<close>

lemma left_join_departments_none:
  assumes "\<forall>d\<in>set (tbl_departments db). e_department_id e \<noteq> Some (d_department_id d)"
  shows "left_join_departments db e = [(e, None, None)]"
proof -
  have "filter (\<lambda>d. e_department_id e = Some (d_department_id d)) (tbl_departments db) = []"
    using assms by (simp add: filter_empty_conv)
  then show ?thesis by (simp add: left_join_departments_def)
qed

lemma left_join_departments_fst: "r \<in> set (left_join_departments db e) \<Longrightarrow> fst r = e"
  by (cases "filter (\<lambda>d. e_department_id e = Some (d_department_id d)) (tbl_departments db)")
     (auto simp: left_join_departments_def)

lemma rows_employees_join_fst:
  "r \<in> set (rows_employees_join db) \<Longrightarrow> fst r \<in> set (tbl_employees db)"
  by (auto simp: rows_employees_join_def dest: left_join_departments_fst)

lemma scan_employee_join_row_total:
  assumes "employees_scannable db" and "r \<in> set (rows_employees_join db)"
  shows "\<exists>x. scan_employee_join_row c r = Inr x"
proof -
  obtain emp where "scan_Employee c (fst r) = Inr emp"
    using scan_Employee_total [OF assms(1) rows_employees_join_fst [OF assms(2)]] by blast
  then show ?thesis
    by (cases r) (auto simp: scan_employee_join_row_def split: option.splits)
qed

lemma join_absent:
  assumes "no_faults c" and "employees_scannable (tables c)"
    and "e \<in> set (tbl_employees (tables c))"
    and "e_department_id e = Some k"
    and "k \<notin> d_department_id ` set (tbl_departments (tables c))"
  shows "error_of (GetEmployeesWithDepartmentJoin c) = None"
    and "\<lparr>Employee = projr (scan_Employee c e), Department = None\<rparr>
           \<in> set (elems (result_of (GetEmployeesWithDepartmentJoin c)))"
proof -
  let ?c = "c\<lparr>sent := sent c @ [SelectEmployeesJoinDepartments]\<rparr>"
  have nf: "\<not> faulty c (length (sent c))" using assms(1) by (simp add: no_faults_def)
  have "\<forall>r\<in>set (rows_employees_join (tables c)). \<exists>x. scan_employee_join_row ?c r = Inr x"
    using scan_employee_join_row_total [OF assms(2)] by blast
  from fetch_all_total [OF this, of NilSlice]
  show ok: "error_of (GetEmployeesWithDepartmentJoin c) = None"
    using assms(1) nf
    by (simp add: GetEmployeesWithDepartmentJoin_def Query_def error_of_def)
  have "\<forall>d\<in>set (tbl_departments (tables c)). e_department_id e \<noteq> Some (d_department_id d)"
    using assms(4,5) by auto
  from left_join_departments_none [OF this]
  have "(e, None, None) \<in> set (rows_employees_join (tables c))"
    using assms(3) by (force simp: rows_employees_join_def)
  with join_employees_rows [OF ok] assms(1) obtain a where
    a: "a \<in> set (elems (result_of (GetEmployeesWithDepartmentJoin c)))"
       "scan_employee_join_row c (e, None, None) = Inr a"
    by (auto simp: list_all2_conv_all_nth in_set_conv_nth) metis
  obtain emp where emp: "scan_Employee c e = Inr emp"
    using scan_Employee_total [OF assms(2,3)] by blast
  have "a = \<lparr>Employee = emp, Department = None\<rparr>"
    using a(2) emp by (simp add: scan_employee_join_row_def)
  then show "\<lparr>Employee = projr (scan_Employee c e), Department = None\<rparr>
           \<in> set (elems (result_of (GetEmployeesWithDepartmentJoin c)))"
    using a(1) emp by simp
qed

subsection \<open>The batch strategy\<close>

lemma index_departments_absent:
  "map_of m k = None \<Longrightarrow> k \<notin> DeptDepartmentID ` set ds \<Longrightarrow>
     map_of (index_departments ds m) k = None"
proof (induction ds arbitrary: m)
  case Nil
  then show ?case by simp
next
  case (Cons d ds)
  have "map_of (map_store (DeptDepartmentID d) d m) k = None"
    using Cons.prems by (simp add: map_of_map_store)
  then show ?case using Cons.IH Cons.prems(2) by simp
qed

lemma departments_fetched:
  assumes "no_faults c" and "departments_scannable (tables c)"
  shows "error_of (GetDepartmentsByIDs ids c) = None"
    and "DeptDepartmentID ` set (elems (result_of (GetDepartmentsByIDs ids c)))
           \<subseteq> d_department_id ` set (tbl_departments (tables c))"
proof -
  let ?c = "c\<lparr>sent := sent c @ [SelectDepartmentsByIDs ids]\<rparr>"
  let ?rows = "rows_departments_by_ids (tables c) ids"
  have nf: "\<not> faulty c (length (sent c))" using assms(1) by (simp add: no_faults_def)
  have sub: "set ?rows \<subseteq> set (tbl_departments (tables c))"
    by (auto simp: rows_departments_by_ids_def)
  then have "\<forall>r\<in>set ?rows. \<exists>x. scan_Department r = Inr x"
    using scan_Department_total [OF assms(2)] by blast
  note f = fetch_all_total [OF this, of NilSlice]
  show "error_of (GetDepartmentsByIDs ids c) = None"
    using assms(1) nf f by (simp add: GetDepartmentsByIDs_def Query_def error_of_def)
  have "elems (result_of (GetDepartmentsByIDs ids c)) =
          (if ids = [] then [] else map (\<lambda>r. projr (scan_Department r)) ?rows)"
    using assms(1) nf f by (simp add: GetDepartmentsByIDs_def Query_def result_of_def)
  moreover have "\<And>r. r \<in> set ?rows \<Longrightarrow>
      DeptDepartmentID (projr (scan_Department r)) \<in> d_department_id ` set (tbl_departments (tables c))"
  proof -
    fix r assume r: "r \<in> set ?rows"
    then obtain d where "scan_Department r = Inr d"
      using sub scan_Department_total [OF assms(2)] by blast
    then show "DeptDepartmentID (projr (scan_Department r))
                 \<in> d_department_id ` set (tbl_departments (tables c))"
      using scan_Department_id r sub by force
  qed
  ultimately show "DeptDepartmentID ` set (elems (result_of (GetDepartmentsByIDs ids c)))
           \<subseteq> d_department_id ` set (tbl_departments (tables c))"
    by auto
qed

lemma batch_absent:
  assumes "no_faults c" and "employees_scannable (tables c)"
    and "departments_scannable (tables c)"
    and "e \<in> set (tbl_employees (tables c))"
    and "e_department_id e = Some k"
    and "k \<notin> d_department_id ` set (tbl_departments (tables c))"
  shows "error_of (GetEmployeesWithDepartmentBatch visit c) = None"
    and "\<lparr>Employee = projr (scan_Employee c e), Department = None\<rparr>
           \<in> set (elems (result_of (GetEmployeesWithDepartmentBatch visit c)))"
proof -
  let ?c = "c\<lparr>sent := sent c @ [SelectAllEmployees]\<rparr>"
  let ?rows = "rows_all_employees (tables c)"
  let ?emps = "map (\<lambda>r. projr (scan_Employee c r)) ?rows"
  let ?ids = "department_id_list visit ?emps"
  have "set ?rows \<noteq> {}" using assms(4) by (auto simp: rows_all_employees_def)
  then have ne: "?rows \<noteq> []" by auto
  have first: "Optimized_GetAllEmployees c = (Slice ?emps, None, ?c)"
    using all_employees_fetched(2) [OF assms(1,2)] ne by simp
  have nf: "no_faults ?c" "departments_scannable (tables ?c)"
    using assms(1,3) by simp_all
  note second = departments_fetched [OF nf, of ?ids]
  obtain ds err c2 where g: "GetDepartmentsByIDs ?ids ?c = (ds, err, c2)"
    by (cases "GetDepartmentsByIDs ?ids ?c") auto
  have err: "err = None" using second(1) g by (simp add: error_of_def)
  have ds: "DeptDepartmentID ` set (elems ds) \<subseteq> d_department_id ` set (tbl_departments (tables c))"
    using second(2) g by (simp add: result_of_def)
  have run: "GetEmployeesWithDepartmentBatch visit c =
          (Slice (map (assemble_employee (index_departments (elems ds) [])) ?emps), None, c2)"
    using first g err ne by (simp add: GetEmployeesWithDepartmentBatch_def len_def)
  show "error_of (GetEmployeesWithDepartmentBatch visit c) = None"
    by (simp add: run error_of_def)
  obtain emp where emp: "scan_Employee c e = Inr emp"
    using scan_Employee_total [OF assms(2,4)] by blast
  have k: "DepartmentID emp = k" using scan_Employee_DepartmentID [OF emp] assms(5) by simp
  have mem: "emp \<in> set ?emps" using assms(4) emp by (force simp: rows_all_employees_def)
  have "map_of (index_departments (elems ds) []) k = None"
    using ds assms(6) by (intro index_departments_absent) auto
  then have "assemble_employee (index_departments (elems ds) []) emp =
               \<lparr>Employee = emp, Department = None\<rparr>"
    using k by (simp add: assemble_employee_def)
  then have "\<lparr>Employee = emp, Department = None\<rparr>
               \<in> set (map (assemble_employee (index_departments (elems ds) [])) ?emps)"
    using mem by force
  then show "\<lparr>Employee = projr (scan_Employee c e), Department = None\<rparr>
           \<in> set (elems (result_of (GetEmployeesWithDepartmentBatch visit c)))"
    using emp by (simp add: run result_of_def)
qed

text \<open>
  A department id that is the id of no department row.  In a run that nothing else
  disturbs, an employee with such an id comes back from the naive, the join and the batch
  strategy alike as an aggregate with no department, and none of the three returns an
  error.
\<close>

lemma dangling_department_is_absent_not_error:
  assumes "no_faults c" and "employees_scannable (tables c)"
    and "departments_scannable (tables c)"
    and "e \<in> set (tbl_employees (tables c))"
    and "e_department_id e = Some k"
    and "k \<notin> d_department_id ` set (tbl_departments (tables c))"
  shows "scan_Employee c e = Inr (projr (scan_Employee c e)) \<and>
         DepartmentID (projr (scan_Employee c e)) = k \<and>
         error_of (GetEmployeesWithDepartment c) = None \<and>
         \<lparr>Employee = projr (scan_Employee c e), Department = None\<rparr>
           \<in> set (elems (result_of (GetEmployeesWithDepartment c))) \<and>
         error_of (GetEmployeesWithDepartmentJoin c) = None \<and>
         \<lparr>Employee = projr (scan_Employee c e), Department = None\<rparr>
           \<in> set (elems (result_of (GetEmployeesWithDepartmentJoin c))) \<and>
         error_of (GetEmployeesWithDepartmentBatch visit c) = None \<and>
         \<lparr>Employee = projr (scan_Employee c e), Department = None\<rparr>
           \<in> set (elems (result_of (GetEmployeesWithDepartmentBatch visit c)))"
proof -
  obtain emp where emp: "scan_Employee c e = Inr emp"
    using scan_Employee_total [OF assms(2,4)] by blast
  have "DepartmentID emp = k" using scan_Employee_DepartmentID [OF emp] assms(5) by simp
  then show ?thesis
    using emp naive_absent [OF assms] join_absent [OF assms(1,2,4,5,6)]
      batch_absent [OF assms, of visit]
    by simp
qed

text \<open>
  C6.  On the sample database with one more employee, number 4, whose department id is
  NULL (the table allows it, and with the foreign key in place it is the only way for an
  employee to match no department row): that employee matches no department row, its row
  of the join has NULL department columns, and the naive, the join and the batch strategy
  all return the nil slice and an error, the failed scan of column 4 (the department id)
  into an \<open>int64\<close>.
\<close>

theorem null_department_id_fails_every_strategy:
  "map (\<lambda>r. (e_employee_id (fst r), e_department_id (fst r), snd r))
     (rows_employees_join (tables no_department_conn)) =
     [(1, Some 3, Some ''Sales'', Some ''Tokyo''), (2, Some 9, None, None),
      (3, Some 3, Some ''Sales'', Some ''Tokyo''), (4, None, None, None)] \<and>
   GetEmployeesWithDepartment no_department_conn =
     (NilSlice,
      Some (Errorf ''failed to get employees'' (Errorf ''failed to scan employee row'' (ErrScan 4))),
      no_department_conn\<lparr>sent := [SelectAllEmployees]\<rparr>) \<and>
   GetEmployeesWithDepartmentJoin no_department_conn =
     (NilSlice, Some (Errorf ''failed to scan employee row'' (ErrScan 4)),
      no_department_conn\<lparr>sent := [SelectEmployeesJoinDepartments]\<rparr>) \<and>
   GetEmployeesWithDepartmentBatch rev no_department_conn =
     (NilSlice,
      Some (Errorf ''failed to get employees'' (Errorf ''failed to scan employee row'' (ErrScan 4))),
      no_department_conn\<lparr>sent := [SelectAllEmployees]\<rparr>)"
  by (simp add: sample_defs employee_defs)
section \<open>Rounding to float64\<close>













section \<open>The speedup of the timing report\<close>











end
